theory Spec2Isabelle
  imports Main "HOL-Library.Sublist" "HOL-Library.AList"
begin

unbundle bit_operations_syntax

section \<open>Python values and the operations the provider applies to them\<close>

text \<open>
  The provider works on what \<^verbatim>\<open>yaml.safe_load\<close> returns: nested dictionaries,
  lists and scalars. A dictionary is an association list with string keys (insertion
  order is kept, as in Python); the keys of a well-formed dictionary are distinct.
  Floating-point scalars (pattern scores) are only forwarded to constructors and are
  not part of this model.
\<close>

datatype pyval =
    PNone
  | PBool bool
  | PInt int
  | PStr string
  | PList "pyval list"
  | PDict "(string \<times> pyval) list"

type_synonym pydict = "(string \<times> pyval) list"

datatype error =
    ValueError
  | TypeError
  | KeyError string
  | IndexError
  | AttributeError
  | IOError
  | YAMLError
  | ConstructionError string

fun bind_e :: "error + 'a \<Rightarrow> ('a \<Rightarrow> error + 'b) \<Rightarrow> error + 'b" where
  "bind_e (Inl e) f = Inl e"
| "bind_e (Inr x) f = f x"

text \<open>A list comprehension whose element expression may raise.\<close>

fun map_e :: "('a \<Rightarrow> error + 'b) \<Rightarrow> 'a list \<Rightarrow> error + 'b list" where
  "map_e f [] = Inr []"
| "map_e f (x # xs) = bind_e (f x) (\<lambda>y. bind_e (map_e f xs) (\<lambda>ys. Inr (y # ys)))"

text \<open>A list comprehension whose condition may raise.\<close>

fun filter_e :: "('a \<Rightarrow> error + bool) \<Rightarrow> 'a list \<Rightarrow> error + 'a list" where
  "filter_e p [] = Inr []"
| "filter_e p (x # xs) =
     bind_e (p x) (\<lambda>b. bind_e (filter_e p xs) (\<lambda>ys. Inr (if b then x # ys else ys)))"

text \<open>Truth value of an object in a condition.\<close>

fun py_truthy :: "pyval \<Rightarrow> bool" where
  "py_truthy PNone = False"
| "py_truthy (PBool b) = b"
| "py_truthy (PInt i) = (i \<noteq> 0)"
| "py_truthy (PStr s) = (s \<noteq> [])"
| "py_truthy (PList xs) = (xs \<noteq> [])"
| "py_truthy (PDict d) = (d \<noteq> [])"

fun isinstance_str :: "pyval \<Rightarrow> bool" where
  "isinstance_str (PStr s) = True"
| "isinstance_str v = False"

text \<open>
  \<^verbatim>\<open>key in v\<close> for a string \<^verbatim>\<open>key\<close>: substring test on a string, element
  test on a list, key test on a dictionary, \<^verbatim>\<open>TypeError\<close> on a scalar.
\<close>

fun py_contains :: "string \<Rightarrow> pyval \<Rightarrow> error + bool" where
  "py_contains key (PStr s) = Inr (sublist key s)"
| "py_contains key (PList xs) = Inr (PStr key \<in> set xs)"
| "py_contains key (PDict d) = Inr (map_of d key \<noteq> None)"
| "py_contains key v = Inl TypeError"

text \<open>\<^verbatim>\<open>v[key]\<close> for a string \<^verbatim>\<open>key\<close>: only a dictionary can be indexed so.\<close>

fun py_getitem :: "pyval \<Rightarrow> string \<Rightarrow> error + pyval" where
  "py_getitem (PDict d) key = (case map_of d key of None \<Rightarrow> Inl (KeyError key) | Some v \<Rightarrow> Inr v)"
| "py_getitem v key = Inl TypeError"

text \<open>\<^verbatim>\<open>v[0]\<close>.\<close>

fun py_first :: "pyval \<Rightarrow> error + pyval" where
  "py_first (PList []) = Inl IndexError"
| "py_first (PList (x # xs)) = Inr x"
| "py_first (PStr []) = Inl IndexError"
| "py_first (PStr (c # cs)) = Inr (PStr [c])"
| "py_first (PDict d) = Inl (KeyError ''0'')"
| "py_first v = Inl TypeError"

text \<open>\<^verbatim>\<open>for x in v\<close>: the elements of a list, the characters of a string, the keys of a dictionary.\<close>

fun py_iter :: "pyval \<Rightarrow> error + pyval list" where
  "py_iter (PList xs) = Inr xs"
| "py_iter (PStr s) = Inr (map (\<lambda>c. PStr [c]) s)"
| "py_iter (PDict d) = Inr (map (\<lambda>kv. PStr (fst kv)) d)"
| "py_iter v = Inl TypeError"

text \<open>\<^verbatim>\<open>v.get(key, default)\<close> and \<^verbatim>\<open>v.items()\<close>: dictionary methods.\<close>

fun py_get :: "pyval \<Rightarrow> string \<Rightarrow> pyval \<Rightarrow> error + pyval" where
  "py_get (PDict d) key dflt = Inr (case map_of d key of None \<Rightarrow> dflt | Some v \<Rightarrow> v)"
| "py_get v key dflt = Inl AttributeError"

fun py_items :: "pyval \<Rightarrow> error + pydict" where
  "py_items (PDict d) = Inr d"
| "py_items v = Inl AttributeError"

text \<open>\<^verbatim>\<open>{**a, **b}\<close>: the keys of \<^verbatim>\<open>a\<close> in order, overwritten by \<^verbatim>\<open>b\<close>, then the new keys of \<^verbatim>\<open>b\<close>.\<close>

definition dict_merge :: "pydict \<Rightarrow> pydict \<Rightarrow> pydict" where
  "dict_merge a b = fold (\<lambda>kv. AList.update (fst kv) (snd kv)) b a"

section \<open>Files, paths and the configuration source resolver\<close>

text \<open>
  \<^verbatim>\<open>yaml.safe_load(open(path))\<close> either cannot open the file (\<^verbatim>\<open>IOError\<close>), cannot parse
  it, or returns a document. The environment gives this outcome for every path, and the
  directory of the module, under which the packaged default document lives.
\<close>

datatype file_result = Unreadable | Malformed | Document pyval

record environment =
  files :: "string \<Rightarrow> file_result"
  module_dir :: string

text \<open>\<^verbatim>\<open>Union[Path, str]\<close>: a \<^verbatim>\<open>Path\<close> object is always true, a string is true when non-empty.\<close>

datatype conf_path = PathObj string | PathStr string

fun path_string :: "conf_path \<Rightarrow> string" where
  "path_string (PathObj s) = s"
| "path_string (PathStr s) = s"

fun path_truthy :: "conf_path option \<Rightarrow> bool" where
  "path_truthy None = False"
| "path_truthy (Some (PathObj s)) = True"
| "path_truthy (Some (PathStr s)) = (s \<noteq> [])"

fun dict_truthy :: "pydict option \<Rightarrow> bool" where
  "dict_truthy None = False"
| "dict_truthy (Some d) = (d \<noteq> [])"

datatype event = FileOpen string | LogWarning string

definition load_yaml :: "environment \<Rightarrow> conf_path \<Rightarrow> error + pyval" where
  "load_yaml env conf_file =
     (case files env (path_string conf_file) of
        Unreadable \<Rightarrow> Inl IOError
      | Malformed \<Rightarrow> Inl YAMLError
      | Document d \<Rightarrow> Inr d)"

definition get_full_conf_path :: "environment \<Rightarrow> string \<Rightarrow> conf_path" where
  "get_full_conf_path env default_conf_file =
     PathObj (module_dir env @ ''/conf/'' @ default_conf_file)"

definition add_missing_keys ::
  "environment \<Rightarrow> pydict \<Rightarrow> conf_path \<Rightarrow> (error + pydict) \<times> event list" where
  "add_missing_keys env configuration conf_file =
     (bind_e (load_yaml env conf_file) (\<lambda>defaults.
        bind_e (py_items defaults) (\<lambda>items.
          Inr (configuration @ filter (\<lambda>kv. fst kv \<notin> set (map fst configuration)) items))),
      [FileOpen (path_string conf_file)])"

definition load_default ::
  "environment \<Rightarrow> pydict \<Rightarrow> (error + pydict) \<times> event list" where
  "load_default env configuration =
     add_missing_keys env configuration (get_full_conf_path env ''default_recognizers.yaml'')"

definition get_configuration ::
  "environment \<Rightarrow> conf_path option \<Rightarrow> pydict option \<Rightarrow> (error + pydict) \<times> event list" where
  "get_configuration env conf_file registry_configuration =
     (if path_truthy conf_file \<and> dict_truthy registry_configuration then (Inl ValueError, [])
      else
        let configuration =
              (case registry_configuration of
                 None \<Rightarrow> []
               | Some d \<Rightarrow> (if d \<noteq> [] then d else []))
        in (case conf_file of
              None \<Rightarrow> load_default env configuration
            | Some p \<Rightarrow>
                if \<not> path_truthy conf_file then load_default env configuration
                else
                  (case add_missing_keys env configuration p of
                     (Inr c, evs) \<Rightarrow> (Inr c, evs)
                   | (Inl IOError, evs) \<Rightarrow>
                       (let w = LogWarning (''configuration file '' @ path_string p
                                            @ '' not found.  Using default config.'');
                            r = load_default env configuration
                        in (fst r, evs @ [w] @ snd r))
                   | (Inl e, evs) \<Rightarrow>
                       (let w = LogWarning (''Failed to parse file '' @ path_string p
                                            @ '', resorting to default'');
                            r = load_default env configuration
                        in (fst r, evs @ [w] @ snd r)))))"

record provider =
  configuration :: pydict
  supported_languages :: pyval

definition provider_init ::
  "environment \<Rightarrow> conf_path option \<Rightarrow> pydict option \<Rightarrow> (error + provider) \<times> event list" where
  "provider_init env conf_file registry_configuration =
     (case get_configuration env conf_file registry_configuration of
        (Inl e, evs) \<Rightarrow> (Inl e, evs)
      | (Inr c, evs) \<Rightarrow> (Inr \<lparr>configuration = c, supported_languages = PNone\<rparr>, evs))"

section \<open>Recognizer entries\<close>

text \<open>
  A recognizer entry is a bare name (a string) or a dictionary. The helpers below are
  the methods of \<^verbatim>\<open>RecognizerRegistryProvider\<close> of the same names.
\<close>

definition is_recognizer_enabled :: "pyval \<Rightarrow> error + pyval" where
  "is_recognizer_enabled recognizer =
     bind_e (py_contains ''enabled'' recognizer) (\<lambda>present.
       if \<not> present then Inr (PBool True) else py_getitem recognizer ''enabled'')"

definition get_recognizer_name :: "pyval \<Rightarrow> error + pyval" where
  "get_recognizer_name recognizer =
     (if isinstance_str recognizer then Inr recognizer else py_getitem recognizer ''name'')"

definition get_recognizer_context :: "pyval \<Rightarrow> error + pyval" where
  "get_recognizer_context recognizer =
     (if isinstance_str recognizer then Inr PNone else py_get recognizer ''context'' PNone)"

definition get_recognizer_items :: "pyval \<Rightarrow> error + pydict" where
  "get_recognizer_items recognizer =
     (if isinstance_str recognizer then Inr [] else py_items recognizer)"

text \<open>A language scope is the dictionary \<^verbatim>\<open>{"supported_language": l, "context": c}\<close>.\<close>

definition language_scope :: "pyval \<Rightarrow> pyval \<Rightarrow> pydict" where
  "language_scope language ctx = [(''supported_language'', language), (''context'', ctx)]"

definition get_recognizer_languages :: "provider \<Rightarrow> pyval \<Rightarrow> error + pydict list" where
  "get_recognizer_languages self recognizer =
     bind_e (if isinstance_str recognizer then Inr True
             else bind_e (py_contains ''supported_languages'' recognizer) (\<lambda>b. Inr (\<not> b)))
       (\<lambda>registry_wide.
          if registry_wide then
            bind_e (py_iter (supported_languages self)) (\<lambda>languages.
              map_e (\<lambda>language.
                       bind_e (get_recognizer_context recognizer) (\<lambda>ctx.
                         Inr (language_scope language ctx)))
                    languages)
          else
            bind_e (py_getitem recognizer ''supported_languages'') (\<lambda>sls.
              bind_e (py_first sls) (\<lambda>first.
                if isinstance_str first then
                  bind_e (py_iter sls) (\<lambda>languages.
                    Inr (map (\<lambda>language. language_scope language PNone) languages))
                else
                  bind_e (py_iter sls) (\<lambda>languages.
                    map_e (\<lambda>language.
                             bind_e (py_getitem language ''language'') (\<lambda>l.
                               bind_e (py_getitem language ''context'') (\<lambda>ctx.
                                 Inr (language_scope l ctx))))
                          languages))))"

text \<open>The conditions of the two comprehensions of \<^verbatim>\<open>_split_recognizers\<close>.\<close>

definition predefined_cond :: "pyval \<Rightarrow> error + bool" where
  "predefined_cond recognizer =
     (if isinstance_str recognizer then Inr True
      else bind_e (py_contains ''type'' recognizer) (\<lambda>has_type.
             if has_type then
               bind_e (py_getitem recognizer ''type'') (\<lambda>t. Inr (t = PStr ''predefined''))
             else Inr False))"

definition custom_cond :: "pyval \<Rightarrow> error + bool" where
  "custom_cond recognizer =
     (if \<not> isinstance_str recognizer then
        bind_e (py_contains ''type'' recognizer) (\<lambda>has_type.
          if \<not> has_type then Inr True
          else bind_e (py_getitem recognizer ''type'') (\<lambda>t. Inr (t = PStr ''custom'')))
      else Inr False)"

definition split_recognizers :: "pyval \<Rightarrow> error + (pyval list \<times> pyval list)" where
  "split_recognizers recognizers =
     bind_e (py_iter recognizers) (\<lambda>rs.
       bind_e (filter_e predefined_cond rs) (\<lambda>predefined.
         bind_e (filter_e custom_cond rs) (\<lambda>custom.
           Inr (predefined, custom))))"

section \<open>Detector instances and the recognizer factory\<close>

text \<open>
  Detector classes are not part of this repository's provider: the library of
  predefined detector types is a parameter \<open>lib\<close> (a name resolves to a constructor
  taking keyword arguments, or does not resolve), and so is
  \<^verbatim>\<open>PatternRecognizer.from_dict\<close>. An instance records its class, the arguments it
  was built from and, when it is a \<^verbatim>\<open>PatternRecognizer\<close>, its \<^verbatim>\<open>global_regex_flags\<close>.
\<close>

datatype recognizer_instance =
    PatternRecognizer string pydict pyval
  | EntityRecognizer string pydict

type_synonym library = "string \<Rightarrow> (pydict \<Rightarrow> error + recognizer_instance) option"

type_synonym pattern_factory = "pyval \<Rightarrow> error + recognizer_instance"

fun isinstance_PatternRecognizer :: "recognizer_instance \<Rightarrow> bool" where
  "isinstance_PatternRecognizer (PatternRecognizer c kw fl) = True"
| "isinstance_PatternRecognizer (EntityRecognizer c kw) = False"

fun global_regex_flags :: "recognizer_instance \<Rightarrow> pyval option" where
  "global_regex_flags (PatternRecognizer c kw fl) = Some fl"
| "global_regex_flags (EntityRecognizer c kw) = None"

text \<open>
  \<^verbatim>\<open>getattr(presidio_analyzer.predefined_recognizers, name, None)(**kwargs)\<close>: an
  attribute name must be a string, and calling \<^verbatim>\<open>None\<close> is a \<^verbatim>\<open>TypeError\<close>.
\<close>

definition getattr_call :: "library \<Rightarrow> pyval \<Rightarrow> pydict \<Rightarrow> error + recognizer_instance" where
  "getattr_call lib name kwargs =
     (case name of
        PStr n \<Rightarrow> (case lib n of None \<Rightarrow> Inl TypeError | Some ctor \<Rightarrow> ctor kwargs)
      | _ \<Rightarrow> Inl TypeError)"

definition drop_keys :: "string list \<Rightarrow> pydict \<Rightarrow> pydict" where
  "drop_keys ks items = filter (\<lambda>kv. fst kv \<notin> set ks) items"

text \<open>The inner loop of the predefined entries (over the language scopes of one entry).\<close>

fun predefined_language_loop ::
  "library \<Rightarrow> pyval \<Rightarrow> recognizer_instance list \<Rightarrow> pydict list
     \<Rightarrow> error + recognizer_instance list" where
  "predefined_language_loop lib recognizer recognizer_instances [] = Inr recognizer_instances"
| "predefined_language_loop lib recognizer recognizer_instances (language # rest) =
     bind_e (is_recognizer_enabled recognizer) (\<lambda>enabled.
       if py_truthy enabled then
         bind_e (get_recognizer_items recognizer) (\<lambda>items.
           let copied_recognizer =
                 drop_keys [''enabled'', ''type'', ''supported_languages'', ''name''] items;
               kwargs = dict_merge copied_recognizer language
           in bind_e (get_recognizer_name recognizer) (\<lambda>name.
                bind_e (getattr_call lib name kwargs) (\<lambda>inst.
                  predefined_language_loop lib recognizer (recognizer_instances @ [inst]) rest)))
       else predefined_language_loop lib recognizer recognizer_instances rest)"

text \<open>The outer loop over the predefined entries.\<close>

fun predefined_loop ::
  "library \<Rightarrow> provider \<Rightarrow> recognizer_instance list \<Rightarrow> pyval list
     \<Rightarrow> error + recognizer_instance list" where
  "predefined_loop lib self recognizer_instances [] = Inr recognizer_instances"
| "predefined_loop lib self recognizer_instances (recognizer # rest) =
     bind_e (get_recognizer_languages self recognizer) (\<lambda>scopes.
       bind_e (predefined_language_loop lib recognizer recognizer_instances scopes) (\<lambda>acc.
         predefined_loop lib self acc rest))"

text \<open>The loop of \<^verbatim>\<open>_create_custom_recognizers\<close> over the language scopes.\<close>

fun custom_language_loop ::
  "pattern_factory \<Rightarrow> pyval \<Rightarrow> recognizer_instance list \<Rightarrow> pydict list
     \<Rightarrow> error + recognizer_instance list" where
  "custom_language_loop from_dict recognizer recognizers [] = Inr recognizers"
| "custom_language_loop from_dict recognizer recognizers (supported_language # rest) =
     bind_e (py_items recognizer) (\<lambda>items.
       let copied_recognizer = drop_keys [''enabled'', ''type'', ''supported_languages''] items;
           kwargs = dict_merge copied_recognizer supported_language
       in bind_e (from_dict (PDict kwargs)) (\<lambda>inst.
            custom_language_loop from_dict recognizer (recognizers @ [inst]) rest))"

definition create_custom_recognizers ::
  "pattern_factory \<Rightarrow> provider \<Rightarrow> pyval \<Rightarrow> error + recognizer_instance list" where
  "create_custom_recognizers from_dict self recognizer =
     bind_e (py_contains ''supported_language'' recognizer) (\<lambda>legacy.
       if legacy then bind_e (from_dict recognizer) (\<lambda>inst. Inr [inst])
       else
         bind_e (get_recognizer_languages self recognizer) (\<lambda>scopes.
           custom_language_loop from_dict recognizer [] scopes))"

text \<open>The loop over the custom entries.\<close>

fun custom_loop ::
  "pattern_factory \<Rightarrow> provider \<Rightarrow> recognizer_instance list \<Rightarrow> pyval list
     \<Rightarrow> error + recognizer_instance list" where
  "custom_loop from_dict self recognizer_instances [] = Inr recognizer_instances"
| "custom_loop from_dict self recognizer_instances (recognizer # rest) =
     bind_e (is_recognizer_enabled recognizer) (\<lambda>enabled.
       if py_truthy enabled then
         bind_e (create_custom_recognizers from_dict self recognizer) (\<lambda>new.
           custom_loop from_dict self (recognizer_instances @ new) rest)
       else custom_loop from_dict self recognizer_instances rest)"

text \<open>The last loop: every \<^verbatim>\<open>PatternRecognizer\<close> gets the registry's flags.\<close>

fun set_global_regex_flags :: "pyval \<Rightarrow> recognizer_instance \<Rightarrow> recognizer_instance" where
  "set_global_regex_flags flags (PatternRecognizer c kw fl) = PatternRecognizer c kw flags"
| "set_global_regex_flags flags (EntityRecognizer c kw) = EntityRecognizer c kw"

section \<open>The registry assembler\<close>

definition re_IGNORECASE :: int where "re_IGNORECASE = 2"
definition re_MULTILINE :: int where "re_MULTILINE = 8"
definition re_DOTALL :: int where "re_DOTALL = 16"

definition default_values :: pydict where
  "default_values =
     [(''supported_languages'', PList [PStr ''en'']),
      (''recognizers'', PList []),
      (''global_regex_flags'', PInt (re_DOTALL OR re_MULTILINE OR re_IGNORECASE))]"

text \<open>\<^verbatim>\<open>self.configuration.get(field, self.default_values[field])\<close>.\<close>

definition resolve_field :: "pydict \<Rightarrow> string \<Rightarrow> error + pyval" where
  "resolve_field conf field =
     bind_e (py_getitem (PDict default_values) field) (\<lambda>dflt.
       py_get (PDict conf) field dflt)"

record recognizer_registry =
  registry_supported_languages :: pyval
  registry_recognizers :: "recognizer_instance list"
  registry_global_regex_flags :: pyval

text \<open>
  \<^verbatim>\<open>RecognizerRegistry\<close> is a class of another module; a registry is the record of the
  three keyword arguments \<^verbatim>\<open>RecognizerRegistry(**fields)\<close> is built from.
  \<^verbatim>\<open>create_recognizer_registry\<close> returns the registry or raises. It assigns
  \<^verbatim>\<open>self.supported_languages\<close> first; \<open>self'\<close> is the provider after that assignment, which
  the helper methods read. The \<^verbatim>\<open>logger.warning\<close> calls for missing fields do not
  influence the result and are left out.
\<close>

definition create_recognizer_registry ::
  "library \<Rightarrow> pattern_factory \<Rightarrow> provider \<Rightarrow> error + recognizer_registry" where
  "create_recognizer_registry lib from_dict self =
     bind_e (resolve_field (configuration self) ''supported_languages'') (\<lambda>f_languages.
     bind_e (resolve_field (configuration self) ''recognizers'') (\<lambda>f_recognizers.
     bind_e (resolve_field (configuration self) ''global_regex_flags'') (\<lambda>f_flags.
       let self' = self\<lparr>supported_languages := f_languages\<rparr> in
       bind_e (split_recognizers f_recognizers) (\<lambda>split.
       bind_e (predefined_loop lib self' [] (fst split)) (\<lambda>recognizer_instances.
       bind_e (custom_loop from_dict self' recognizer_instances (snd split)) (\<lambda>recognizer_instances.
         Inr \<lparr>registry_supported_languages = f_languages,
              registry_recognizers = map (set_global_regex_flags f_flags) recognizer_instances,
              registry_global_regex_flags = f_flags\<rparr>))))))"

section \<open>Notions used to state the properties\<close>

text \<open>
  The scope that a \<^verbatim>\<open>{language, context}\<close> mapping stands for: its own language with its
  own context. Anything else (a string, a mapping lacking one of the two keys) is not
  such a mapping.
\<close>

fun mapping_scope :: "pyval \<Rightarrow> pydict option" where
  "mapping_scope (PDict m) =
     (case map_of m ''language'' of
        None \<Rightarrow> None
      | Some l \<Rightarrow> (case map_of m ''context'' of
                     None \<Rightarrow> None
                   | Some c \<Rightarrow> Some (language_scope l c)))"
| "mapping_scope v = None"

text \<open>
  The provider whose configuration lists the recognizer entries \<open>rs\<close> instead of its own.
\<close>

definition with_recognizers :: "provider \<Rightarrow> pyval list \<Rightarrow> provider" where
  "with_recognizers self rs =
     self\<lparr>configuration := AList.update ''recognizers'' (PList rs) (configuration self)\<rparr>"

text \<open>
  The registry-wide languages, \<^verbatim>\<open>fields["supported_languages"]\<close>.
\<close>

definition resolved_languages :: "provider \<Rightarrow> pyval" where
  "resolved_languages self =
     (case map_of (configuration self) ''supported_languages'' of
        None \<Rightarrow> PList [PStr ''en''] | Some v \<Rightarrow> v)"


fun entry_enabled :: "pyval \<Rightarrow> bool" where
  "entry_enabled (PStr n) = True"
| "entry_enabled (PDict d) = (case map_of d ''enabled'' of None \<Rightarrow> True | Some v \<Rightarrow> py_truthy v)"
| "entry_enabled v = False"

fun is_predefined_entry :: "pyval \<Rightarrow> bool" where
  "is_predefined_entry (PStr n) = True"
| "is_predefined_entry (PDict d) = (map_of d ''type'' = Some (PStr ''predefined''))"
| "is_predefined_entry v = False"

fun is_custom_entry :: "pyval \<Rightarrow> bool" where
  "is_custom_entry (PDict d) =
     (map_of d ''type'' = None \<or> map_of d ''type'' = Some (PStr ''custom''))"
| "is_custom_entry v = False"

text \<open>
  The provider once \<^verbatim>\<open>self.supported_languages\<close> has been assigned that value.
\<close>

definition languages_bound :: "provider \<Rightarrow> provider" where
  "languages_bound self = self\<lparr>supported_languages := resolved_languages self\<rparr>"

text \<open>
  What one pass of the inner loops constructs. For an enabled predefined entry and one
  language scope: the keyword arguments are the entry's items without \<^verbatim>\<open>enabled\<close>,
  \<^verbatim>\<open>type\<close>, \<^verbatim>\<open>supported_languages\<close> and \<^verbatim>\<open>name\<close>, merged with the scope, and the
  constructor is looked up by the entry's name. For a custom entry without
  \<^verbatim>\<open>supported_language\<close>: \<^verbatim>\<open>PatternRecognizer.from_dict\<close> of the entry's items without
  \<^verbatim>\<open>enabled\<close>, \<^verbatim>\<open>type\<close> and \<^verbatim>\<open>supported_languages\<close>, merged with the scope.
\<close>

definition predefined_instance :: "library \<Rightarrow> pyval \<Rightarrow> pydict \<Rightarrow> error + recognizer_instance" where
  "predefined_instance lib recognizer language =
     bind_e (get_recognizer_items recognizer) (\<lambda>items.
       bind_e (get_recognizer_name recognizer) (\<lambda>name.
         getattr_call lib name
           (dict_merge (drop_keys [''enabled'', ''type'', ''supported_languages'', ''name''] items)
                       language)))"


section \<open>Example collaborators\<close>

text \<open>
  A small library of predefined detector types, a pattern factory that insists on
  \<^verbatim>\<open>patterns\<close> and \<^verbatim>\<open>supported_entity\<close>, and an environment whose only readable file is
  the packaged default document; they are used to run the provider on concrete input.
\<close>

definition example_library :: library where
  "example_library =
     (\<lambda>n. if n = ''CreditCardRecognizer''
           then Some (\<lambda>kw. Inr (PatternRecognizer ''CreditCardRecognizer'' kw (PInt 0)))
           else if n = ''SpacyRecognizer''
           then Some (\<lambda>kw. Inr (EntityRecognizer ''SpacyRecognizer'' kw))
           else None)"

definition example_from_dict :: pattern_factory where
  "example_from_dict =
     (\<lambda>v. case v of
             PDict d \<Rightarrow>
               (if map_of d ''patterns'' \<noteq> None \<and> map_of d ''supported_entity'' \<noteq> None
                then Inr (PatternRecognizer ''PatternRecognizer'' d (PInt 0))
                else Inl (ConstructionError ''PatternRecognizer''))
           | _ \<Rightarrow> Inl AttributeError)"

definition example_env :: environment where
  "example_env =
     \<lparr>files = (\<lambda>p. if p = ''/pkg/conf/default_recognizers.yaml''
                    then Document (PDict [(''supported_languages'', PList [PStr ''en'']),
                                          (''recognizers'', PList [PStr ''CreditCardRecognizer''])])
                    else if p = ''registry.yaml''
                    then Document (PDict [(''supported_languages'', PList [PStr ''de''])])
                    else Unreadable),
      module_dir = ''/pkg''\<rparr>"

text \<open>Recognizer entries and providers for the examples.\<close>

definition example_zip :: pyval where
  "example_zip =
     PDict [(''name'', PStr ''Zip''),
            (''supported_entity'', PStr ''ZIP''),
            (''patterns'', PList [PDict [(''name'', PStr ''p1''), (''regex'', PStr ''[0-9]{5}'')]])]"

definition example_legacy_zip :: pydict where
  "example_legacy_zip =
     [(''name'', PStr ''Zip''),
      (''supported_language'', PStr ''fr''),
      (''supported_entity'', PStr ''ZIP''),
      (''patterns'', PList [PDict [(''name'', PStr ''p1''), (''regex'', PStr ''[0-9]{5}'')]])]"

definition example_disabled_predefined :: pydict where
  "example_disabled_predefined =
     [(''name'', PStr ''CreditCardRecognizer''), (''type'', PStr ''predefined''),
      (''enabled'', PBool False)]"

definition example_disabled_custom :: pydict where
  "example_disabled_custom =
     [(''name'', PStr ''Zip''), (''enabled'', PBool False),
      (''supported_entity'', PStr ''ZIP''),
      (''patterns'', PList [PDict [(''name'', PStr ''p1''), (''regex'', PStr ''[0-9]{5}'')]])]"

definition example_provider :: "pyval list \<Rightarrow> pyval list \<Rightarrow> provider" where
  "example_provider languages entries =
     \<lparr>configuration = [(''supported_languages'', PList languages), (''recognizers'', PList entries)],
      supported_languages = PNone\<rparr>"

text \<open>More entries, and the instances and registries the examples produce.\<close>

definition example_unclassified :: pydict where
  "example_unclassified =
     [(''name'', PStr ''Zip''), (''type'', PStr ''other''),
      (''supported_entity'', PStr ''ZIP''),
      (''patterns'', PList [PDict [(''name'', PStr ''p1''), (''regex'', PStr ''[0-9]{5}'')]])]"

definition example_legacy_predefined :: pydict where
  "example_legacy_predefined =
     [(''name'', PStr ''CreditCardRecognizer''), (''type'', PStr ''predefined''),
      (''supported_language'', PStr ''en'')]"

definition example_card_instance :: "string \<Rightarrow> recognizer_instance" where
  "example_card_instance language =
     PatternRecognizer ''CreditCardRecognizer''
       [(''supported_language'', PStr language), (''context'', PNone)] (PInt 26)"

definition example_zip_instance :: "string \<Rightarrow> recognizer_instance" where
  "example_zip_instance language =
     PatternRecognizer ''PatternRecognizer''
       [(''name'', PStr ''Zip''), (''supported_entity'', PStr ''ZIP''),
        (''patterns'', PList [PDict [(''name'', PStr ''p1''), (''regex'', PStr ''[0-9]{5}'')]]),
        (''supported_language'', PStr language), (''context'', PNone)] (PInt 26)"

definition example_legacy_zip_instance :: recognizer_instance where
  "example_legacy_zip_instance =
     PatternRecognizer ''PatternRecognizer'' example_legacy_zip (PInt 26)"

definition example_registry :: "pyval list \<Rightarrow> recognizer_instance list \<Rightarrow> recognizer_registry" where
  "example_registry languages instances =
     \<lparr>registry_supported_languages = PList languages,
      registry_recognizers = instances,
      registry_global_regex_flags = PInt 26\<rparr>"

section \<open>Properties of the configuration source resolver\<close>

lemma add_missing_keys_no_value_error:
  "fst (add_missing_keys env c p) \<noteq> Inl ValueError"
proof (cases "files env (path_string p)")
  case (Document b)
  then show ?thesis by (cases b) (simp_all add: add_missing_keys_def load_yaml_def)
qed (simp_all add: add_missing_keys_def load_yaml_def)

lemma load_default_no_value_error:
  "fst (load_default env c) \<noteq> Inl ValueError"
  by (simp add: load_default_def add_missing_keys_no_value_error)

lemma get_configuration_empty_inline:
  "get_configuration env conf_file (Some []) = get_configuration env conf_file None"
  by (simp add: get_configuration_def)

lemma get_configuration_no_inline_no_value_error:
  "fst (get_configuration env conf_file None) \<noteq> Inl ValueError"
proof (cases conf_file)
  case None
  then show ?thesis by (simp add: get_configuration_def load_default_no_value_error)
next
  case (Some p)
  show ?thesis
  proof (cases "path_truthy (Some p)")
    case False
    with Some show ?thesis by (simp add: get_configuration_def load_default_no_value_error)
  next
    case True
    obtain r evs where r: "add_missing_keys env [] p = (r, evs)"
      by (cases "add_missing_keys env [] p")
    have nve: "r \<noteq> Inl ValueError"
      using add_missing_keys_no_value_error[of env "[]" p] r by simp
    show ?thesis
    proof (cases r)
      case (Inr c)
      with Some True r show ?thesis by (simp add: get_configuration_def)
    next
      case (Inl e)
      with Some True r nve show ?thesis
        by (cases e) (simp_all add: get_configuration_def Let_def load_default_no_value_error)
    qed
  qed
qed

lemma get_configuration_opens_given_file_first:
  assumes "path_truthy (Some p)"
  shows "\<exists>rest. snd (get_configuration env (Some p) None) = FileOpen (path_string p) # rest"
proof -
  obtain r where r: "add_missing_keys env [] p = (r, [FileOpen (path_string p)])"
    by (simp add: add_missing_keys_def)
  show ?thesis
  proof (cases r)
    case (Inr c)
    with assms r show ?thesis by (simp add: get_configuration_def)
  next
    case (Inl e)
    with assms r show ?thesis
      by (cases e) (simp_all add: get_configuration_def Let_def)
  qed
qed

lemma get_configuration_reads_given_file:
  assumes "path_truthy (Some p)" and "files env (path_string p) = Document (PDict d)"
  shows "get_configuration env (Some p) None = (Inr d, [FileOpen (path_string p)])"
  using assms by (simp add: get_configuration_def add_missing_keys_def load_yaml_def)

lemma get_configuration_unreadable_file:
  assumes "files env (path_string p) = Unreadable"
  shows "fst (get_configuration env (Some p) None) = fst (get_configuration env None None)"
  using assms by (simp add: get_configuration_def add_missing_keys_def load_yaml_def Let_def)

text \<open>
  C3. When the constructor is given both a file path (a \<^verbatim>\<open>Path\<close> object or a non-empty
  string, that is, a \<^verbatim>\<open>conf_file\<close> that counts as true) and a non-empty inline
  configuration, it raises \<^verbatim>\<open>ValueError\<close>; the event trace is empty, so no file has
  been opened and no configuration has been loaded.
\<close>

theorem both_sources_is_usage_error:
  assumes "path_truthy (Some p)" and "d \<noteq> []"
  shows "get_configuration env (Some p) (Some d) = (Inl ValueError, [])
       \<and> provider_init env (Some p) (Some d) = (Inl ValueError, [])"
  using assms by (simp add: get_configuration_def provider_init_def)

theorem both_sources_is_usage_error_witness:
  "path_truthy (Some (PathStr ''registry.yaml''))
   \<and> [(''supported_languages'', PList [PStr ''fr''])] \<noteq> []
   \<and> get_configuration example_env (Some (PathStr ''registry.yaml''))
        (Some [(''supported_languages'', PList [PStr ''fr''])]) = (Inl ValueError, [])
   \<and> provider_init example_env (Some (PathStr ''registry.yaml''))
        (Some [(''supported_languages'', PList [PStr ''fr''])]) = (Inl ValueError, [])"
  using both_sources_is_usage_error
          [of "PathStr ''registry.yaml''" "[(''supported_languages'', PList [PStr ''fr''])]"
              example_env]
  by simp

text \<open>
  C9. With an empty inline mapping the constructor behaves exactly as with no inline
  configuration, for every \<^verbatim>\<open>conf_file\<close>: it does not raise \<^verbatim>\<open>ValueError\<close>, a supplied
  path is the first file opened, and when that file holds a mapping the resolved
  configuration is that mapping.
\<close>

theorem empty_inline_configuration_is_no_configuration:
  "provider_init env conf_file (Some []) = provider_init env conf_file None
   \<and> fst (provider_init env conf_file (Some [])) \<noteq> Inl ValueError
   \<and> (\<forall>p. conf_file = Some p \<and> path_truthy (Some p) \<longrightarrow>
         (\<exists>rest. snd (provider_init env conf_file (Some [])) = FileOpen (path_string p) # rest)
       \<and> (\<forall>doc. files env (path_string p) = Document (PDict doc) \<longrightarrow>
            provider_init env conf_file (Some [])
              = (Inr \<lparr>configuration = doc, supported_languages = PNone\<rparr>,
                 [FileOpen (path_string p)])))"
proof (intro conjI allI impI)
  show eq: "provider_init env conf_file (Some []) = provider_init env conf_file None"
    by (simp add: provider_init_def get_configuration_empty_inline)
  show "fst (provider_init env conf_file (Some [])) \<noteq> Inl ValueError"
    using get_configuration_no_inline_no_value_error[of env conf_file]
    by (cases "get_configuration env conf_file None")
       (auto simp: provider_init_def get_configuration_empty_inline split: sum.splits)
next
  fix p
  assume p: "conf_file = Some p \<and> path_truthy (Some p)"
  then obtain rest where
    "snd (get_configuration env (Some p) None) = FileOpen (path_string p) # rest"
    using get_configuration_opens_given_file_first by blast
  with p show "\<exists>rest. snd (provider_init env conf_file (Some [])) = FileOpen (path_string p) # rest"
    by (cases "get_configuration env (Some p) None")
       (auto simp: provider_init_def get_configuration_empty_inline split: sum.splits)
next
  fix p doc
  assume p: "conf_file = Some p \<and> path_truthy (Some p)"
    and doc: "files env (path_string p) = Document (PDict doc)"
  then show "provider_init env conf_file (Some [])
              = (Inr \<lparr>configuration = doc, supported_languages = PNone\<rparr>,
                 [FileOpen (path_string p)])"
    by (simp add: provider_init_def get_configuration_empty_inline
                  get_configuration_reads_given_file)
qed

theorem empty_inline_configuration_is_no_configuration_witness:
  "provider_init example_env (Some (PathStr ''registry.yaml'')) (Some [])
     = (Inr \<lparr>configuration = [(''supported_languages'', PList [PStr ''de''])],
             supported_languages = PNone\<rparr>,
        [FileOpen ''registry.yaml''])
   \<and> provider_init example_env (Some (PathStr ''registry.yaml'')) None
     = (Inr \<lparr>configuration = [(''supported_languages'', PList [PStr ''de''])],
             supported_languages = PNone\<rparr>,
        [FileOpen ''registry.yaml''])"
proof -
  have f: "files example_env (path_string (PathStr ''registry.yaml''))
             = Document (PDict [(''supported_languages'', PList [PStr ''de''])])"
    by (simp add: example_env_def)
  have t: "path_truthy (Some (PathStr ''registry.yaml''))" by simp
  show ?thesis
    using empty_inline_configuration_is_no_configuration
            [of example_env "Some (PathStr ''registry.yaml'')"] f t
    by auto
qed

text \<open>
  C6. When the file at the given path cannot be opened, the constructor (called with no
  inline configuration) resolves the same configuration, or fails with the same error,
  as when it is called with no path; the registry assembled from it is therefore the same.
  In both cases the configuration is what the packaged default document gives.
\<close>

theorem missing_file_same_as_no_path:
  assumes "files env (path_string p) = Unreadable"
  shows "fst (provider_init env (Some p) None) = fst (provider_init env None None)
       \<and> bind_e (fst (provider_init env (Some p) None)) (create_recognizer_registry lib from_dict)
         = bind_e (fst (provider_init env None None)) (create_recognizer_registry lib from_dict)
       \<and> fst (get_configuration env (Some p) None) = fst (load_default env [])"
proof -
  have "fst (provider_init env (Some p) None) = fst (provider_init env None None)"
    using get_configuration_unreadable_file[OF assms]
    by (cases "get_configuration env (Some p) None"; cases "get_configuration env None None")
       (auto simp: provider_init_def split: sum.splits)
  moreover have "fst (get_configuration env (Some p) None) = fst (load_default env [])"
    using get_configuration_unreadable_file[OF assms] by (simp add: get_configuration_def)
  ultimately show ?thesis by simp
qed

theorem missing_file_same_as_no_path_witness:
  "files example_env (path_string (PathStr ''nowhere.yaml'')) = Unreadable
   \<and> fst (provider_init example_env (Some (PathStr ''nowhere.yaml'')) None)
       = Inr \<lparr>configuration =
                 [(''supported_languages'', PList [PStr ''en'']),
                  (''recognizers'', PList [PStr ''CreditCardRecognizer''])],
               supported_languages = PNone\<rparr>
   \<and> fst (provider_init example_env None None)
       = Inr \<lparr>configuration =
                 [(''supported_languages'', PList [PStr ''en'']),
                  (''recognizers'', PList [PStr ''CreditCardRecognizer''])],
               supported_languages = PNone\<rparr>
   \<and> bind_e (fst (provider_init example_env (Some (PathStr ''nowhere.yaml'')) None))
        (create_recognizer_registry example_library example_from_dict)
       = bind_e (fst (provider_init example_env None None))
        (create_recognizer_registry example_library example_from_dict)"
proof -
  have u: "files example_env (path_string (PathStr ''nowhere.yaml'')) = Unreadable"
    by (simp add: example_env_def)
  have n: "fst (provider_init example_env None None)
       = Inr \<lparr>configuration =
                 [(''supported_languages'', PList [PStr ''en'']),
                  (''recognizers'', PList [PStr ''CreditCardRecognizer''])],
               supported_languages = PNone\<rparr>"
    by (simp add: provider_init_def get_configuration_def load_default_def add_missing_keys_def
                  load_yaml_def get_full_conf_path_def example_env_def)
  show ?thesis
    using missing_file_same_as_no_path[OF u, of example_library example_from_dict] u n by simp
qed

section \<open>Properties of the language scope expander\<close>

lemma bind_e_eq_Inr: "bind_e m f = Inr y \<longleftrightarrow> (\<exists>x. m = Inr x \<and> f x = Inr y)"
  by (cases m) simp_all

lemma map_e_total:
  "(\<And>x. x \<in> set xs \<Longrightarrow> f x = Inr (g x)) \<Longrightarrow> map_e f xs = Inr (map g xs)"
  by (induction xs) simp_all

lemma map_e_mapping_scope:
  assumes "map mapping_scope ms = map Some scopes"
  shows "map_e (\<lambda>language.
                  bind_e (py_getitem language ''language'') (\<lambda>l.
                    bind_e (py_getitem language ''context'') (\<lambda>ctx.
                      Inr (language_scope l ctx)))) ms = Inr scopes"
  using assms
proof (induction ms arbitrary: scopes)
  case Nil
  then show ?case by simp
next
  case (Cons m ms)
  then obtain s rest where sc: "scopes = s # rest" and m: "mapping_scope m = Some s"
    and r: "map mapping_scope ms = map Some rest"
    by (cases scopes) auto
  from m have "bind_e (py_getitem m ''language'') (\<lambda>l.
                 bind_e (py_getitem m ''context'') (\<lambda>ctx. Inr (language_scope l ctx))) = Inr s"
    by (cases m) (auto split: option.splits)
  with Cons.IH[OF r] sc show ?case by simp
qed

text \<open>
  C7. For a structured entry whose \<^verbatim>\<open>supported_languages\<close> is a non-empty list, the
  first element decides how the whole list is read. If it is a string, every element
  (whatever its shape) becomes the language of one scope with context \<^verbatim>\<open>None\<close>. If the
  elements are \<^verbatim>\<open>{language, context}\<close> mappings, there is one scope per mapping, with
  that mapping's language and context, in order.
\<close>

theorem first_element_decides_expansion:
  assumes "map_of entry ''supported_languages'' = Some (PList (first # rest))"
  shows "(isinstance_str first \<longrightarrow>
            get_recognizer_languages self (PDict entry)
              = Inr (map (\<lambda>language. language_scope language PNone) (first # rest)))
       \<and> (\<forall>scopes. map mapping_scope (first # rest) = map Some scopes \<longrightarrow>
            get_recognizer_languages self (PDict entry) = Inr scopes)"
proof (intro conjI impI allI)
  assume "isinstance_str first"
  with assms show "get_recognizer_languages self (PDict entry)
              = Inr (map (\<lambda>language. language_scope language PNone) (first # rest))"
    by (simp add: get_recognizer_languages_def)
next
  fix scopes
  assume m: "map mapping_scope (first # rest) = map Some scopes"
  then have "mapping_scope first \<noteq> None" by (cases scopes) auto
  then have "\<not> isinstance_str first" by (cases first) auto
  with assms map_e_mapping_scope[OF m]
  show "get_recognizer_languages self (PDict entry) = Inr scopes"
    by (simp add: get_recognizer_languages_def)
qed

theorem first_element_decides_expansion_witness:
  "get_recognizer_languages \<lparr>configuration = [], supported_languages = PList [PStr ''fr'']\<rparr>
     (PDict [(''name'', PStr ''Zip''), (''context'', PList [PStr ''zip'']),
             (''supported_languages'',
                PList [PStr ''en'', PDict [(''language'', PStr ''de''), (''context'', PNone)]])])
   = Inr [[(''supported_language'', PStr ''en''), (''context'', PNone)],
          [(''supported_language'', PDict [(''language'', PStr ''de''), (''context'', PNone)]),
           (''context'', PNone)]]
   \<and> get_recognizer_languages \<lparr>configuration = [], supported_languages = PList [PStr ''fr'']\<rparr>
     (PDict [(''name'', PStr ''Zip''), (''context'', PList [PStr ''zip'']),
             (''supported_languages'',
                PList [PDict [(''language'', PStr ''en''), (''context'', PList [PStr ''code''])],
                       PDict [(''context'', PList [PStr ''plz'']), (''language'', PStr ''de'')]])])
   = Inr [[(''supported_language'', PStr ''en''), (''context'', PList [PStr ''code''])],
          [(''supported_language'', PStr ''de''), (''context'', PList [PStr ''plz''])]]"
proof -
  let ?self = "\<lparr>configuration = [], supported_languages = PList [PStr ''fr'']\<rparr>"
  let ?plain = "[(''name'', PStr ''Zip''), (''context'', PList [PStr ''zip'']),
             (''supported_languages'',
                PList [PStr ''en'', PDict [(''language'', PStr ''de''), (''context'', PNone)]])]"
  let ?scoped = "[(''name'', PStr ''Zip''), (''context'', PList [PStr ''zip'']),
             (''supported_languages'',
                PList [PDict [(''language'', PStr ''en''), (''context'', PList [PStr ''code''])],
                       PDict [(''context'', PList [PStr ''plz'']), (''language'', PStr ''de'')]])]"
  have a: "map_of ?plain ''supported_languages''
             = Some (PList (PStr ''en'' # [PDict [(''language'', PStr ''de''), (''context'', PNone)]]))"
    by simp
  have b: "map_of ?scoped ''supported_languages''
             = Some (PList (PDict [(''language'', PStr ''en''), (''context'', PList [PStr ''code''])]
                            # [PDict [(''context'', PList [PStr ''plz'']), (''language'', PStr ''de'')]]))"
    by simp
  show ?thesis
    using first_element_decides_expansion[OF a, of ?self]
          first_element_decides_expansion[OF b, of ?self]
    by (simp add: language_scope_def)
qed

section \<open>Properties of the registry assembler\<close>

lemma resolve_flags:
  "resolve_field conf ''global_regex_flags''
     = Inr (case map_of conf ''global_regex_flags'' of
              None \<Rightarrow> PInt (re_DOTALL OR re_MULTILINE OR re_IGNORECASE) | Some v \<Rightarrow> v)"
  by (simp add: resolve_field_def default_values_def)

lemma resolve_languages:
  "resolve_field conf ''supported_languages''
     = Inr (case map_of conf ''supported_languages'' of
              None \<Rightarrow> PList [PStr ''en''] | Some v \<Rightarrow> v)"
  by (simp add: resolve_field_def default_values_def)

lemma resolve_recognizers:
  "resolve_field conf ''recognizers''
     = Inr (case map_of conf ''recognizers'' of None \<Rightarrow> PList [] | Some v \<Rightarrow> v)"
  by (simp add: resolve_field_def default_values_def)

lemma set_flags_pattern:
  "isinstance_PatternRecognizer x \<Longrightarrow> global_regex_flags (set_global_regex_flags f x) = Some f"
  by (cases x) simp_all

lemma create_registry_Inr:
  assumes "create_recognizer_registry lib fd self = Inr registry"
  shows "\<exists>f insts. resolve_field (configuration self) ''global_regex_flags'' = Inr f
         \<and> registry_recognizers registry = map (set_global_regex_flags f) insts
         \<and> registry_global_regex_flags registry = f"
  using assms
  unfolding create_recognizer_registry_def
  by (auto simp: bind_e_eq_Inr Let_def)

lemmas registry_eval =
  create_recognizer_registry_def resolve_field_def default_values_def
  split_recognizers_def predefined_cond_def custom_cond_def get_recognizer_languages_def
  get_recognizer_context_def language_scope_def is_recognizer_enabled_def
  get_recognizer_items_def get_recognizer_name_def getattr_call_def drop_keys_def
  dict_merge_def create_custom_recognizers_def sublist_code
  re_DOTALL_def re_MULTILINE_def re_IGNORECASE_def
  example_library_def example_from_dict_def

text \<open>
  C8. In a registry returned by \<^verbatim>\<open>create_recognizer_registry\<close>, every instance that is a
  \<^verbatim>\<open>PatternRecognizer\<close> has \<^verbatim>\<open>global_regex_flags\<close> equal to the resolved value: the
  configuration's \<^verbatim>\<open>global_regex_flags\<close> when that key is present, else
  \<^verbatim>\<open>re.DOTALL | re.MULTILINE | re.IGNORECASE\<close>; whatever flags the constructor gave the
  instance are overwritten. The registry's own field holds the same value.
\<close>

theorem global_regex_flags_uniform:
  assumes "create_recognizer_registry lib from_dict self = Inr registry"
    and "inst \<in> set (registry_recognizers registry)"
    and "isinstance_PatternRecognizer inst"
  shows "global_regex_flags inst
         = Some (case map_of (configuration self) ''global_regex_flags'' of
                   None \<Rightarrow> PInt (re_DOTALL OR re_MULTILINE OR re_IGNORECASE)
                 | Some v \<Rightarrow> v)
       \<and> global_regex_flags inst = Some (registry_global_regex_flags registry)"
proof -
  obtain f insts where f: "resolve_field (configuration self) ''global_regex_flags'' = Inr f"
    and i: "registry_recognizers registry = map (set_global_regex_flags f) insts"
    and g: "registry_global_regex_flags registry = f"
    using create_registry_Inr[OF assms(1)] by blast
  from i assms(2) obtain x where x: "inst = set_global_regex_flags f x" by auto
  with assms(3) have "isinstance_PatternRecognizer x" by (cases x) simp_all
  with x have "global_regex_flags inst = Some f"
    by (simp add: set_flags_pattern)
  with f g show ?thesis by (simp add: resolve_flags)
qed

theorem global_regex_flags_uniform_witness:
  "create_recognizer_registry example_library example_from_dict
     \<lparr>configuration = [(''recognizers'', PList [PStr ''CreditCardRecognizer'']),
                       (''global_regex_flags'', PInt 2)],
      supported_languages = PNone\<rparr>
   = Inr \<lparr>registry_supported_languages = PList [PStr ''en''],
          registry_recognizers =
            [PatternRecognizer ''CreditCardRecognizer''
               [(''supported_language'', PStr ''en''), (''context'', PNone)] (PInt 2)],
          registry_global_regex_flags = PInt 2\<rparr>
   \<and> global_regex_flags (PatternRecognizer ''CreditCardRecognizer''
               [(''supported_language'', PStr ''en''), (''context'', PNone)] (PInt 2))
     = Some (PInt 2)"
proof -
  let ?self = "\<lparr>configuration = [(''recognizers'', PList [PStr ''CreditCardRecognizer'']),
                       (''global_regex_flags'', PInt 2)],
      supported_languages = PNone\<rparr>"
  let ?inst = "PatternRecognizer ''CreditCardRecognizer''
               [(''supported_language'', PStr ''en''), (''context'', PNone)] (PInt 2)"
  let ?reg = "\<lparr>registry_supported_languages = PList [PStr ''en''],
          registry_recognizers = [?inst], registry_global_regex_flags = PInt 2\<rparr>"
  have r: "create_recognizer_registry example_library example_from_dict ?self = Inr ?reg"
    by (simp add: registry_eval)
  have m: "?inst \<in> set (registry_recognizers ?reg)" by simp
  have p: "isinstance_PatternRecognizer ?inst" by simp
  show ?thesis using global_regex_flags_uniform[OF r m p] r by simp
qed

section \<open>The loops of the registry assembler, entry by entry\<close>

lemma bind_e_assoc: "bind_e (bind_e m f) g = bind_e m (\<lambda>x. bind_e (f x) g)"
  by (cases m) simp_all

lemma bind_e_Inr_id: "bind_e m Inr = m"
  by (cases m) simp_all

lemma bind_e_cong: "m = m' \<Longrightarrow> (\<And>x. m' = Inr x \<Longrightarrow> f x = g x) \<Longrightarrow> bind_e m f = bind_e m' g"
  by (cases m') simp_all

lemma filter_e_append:
  "filter_e p (xs @ ys)
     = bind_e (filter_e p xs) (\<lambda>a. bind_e (filter_e p ys) (\<lambda>b. Inr (a @ b)))"
proof (induction xs)
  case Nil
  show ?case by (simp add: bind_e_Inr_id)
next
  case (Cons x xs)
  show ?case
  proof (cases "p x")
    case (Inl e) then show ?thesis by simp
  next
    case (Inr b)
    show ?thesis
    proof (cases "filter_e p xs")
      case (Inl e) with Inr Cons show ?thesis by simp
    next
      case r: (Inr a)
      show ?thesis
      proof (cases "filter_e p ys")
        case (Inl e) with Inr r Cons show ?thesis by simp
      next
        case (Inr c) with \<open>p x = Inr b\<close> r Cons show ?thesis by simp
      qed
    qed
  qed
qed

lemma predefined_language_loop_acc:
  "predefined_language_loop lib r acc scopes
     = bind_e (predefined_language_loop lib r [] scopes) (\<lambda>new. Inr (acc @ new))"
proof (induction scopes arbitrary: acc)
  case Nil
  show ?case by simp
next
  case (Cons s scopes)
  note IH = Cons.IH
  show ?case
  proof (cases "is_recognizer_enabled r")
    case (Inl e) then show ?thesis by simp
  next
    case en: (Inr enabled)
    show ?thesis
    proof (cases "py_truthy enabled")
      case False with en IH[of acc] show ?thesis by simp
    next
      case True
      show ?thesis
      proof (cases "get_recognizer_items r")
        case (Inl e) with en True show ?thesis by simp
      next
        case it: (Inr items)
        show ?thesis
        proof (cases "get_recognizer_name r")
          case (Inl e) with en True it show ?thesis by simp
        next
          case nm: (Inr name)
          show ?thesis
          proof (cases "getattr_call lib name
                   (dict_merge (drop_keys [''enabled'', ''type'', ''supported_languages'', ''name''] items) s)")
            case (Inl e) with en True it nm show ?thesis by simp
          next
            case (Inr inst)
            with en True it nm IH[of "acc @ [inst]"] IH[of "[inst]"] show ?thesis
              by (simp add: bind_e_assoc)
          qed
        qed
      qed
    qed
  qed
qed

lemma predefined_loop_acc:
  "predefined_loop lib self acc rs
     = bind_e (predefined_loop lib self [] rs) (\<lambda>new. Inr (acc @ new))"
proof (induction rs arbitrary: acc)
  case Nil
  show ?case by simp
next
  case (Cons r rs)
  note IH = Cons.IH
  show ?case
  proof (cases "get_recognizer_languages self r")
    case (Inl e) then show ?thesis by simp
  next
    case sc: (Inr scopes)
    show ?thesis
    proof (cases "predefined_language_loop lib r [] scopes")
      case (Inl e)
      with sc predefined_language_loop_acc[of lib r acc scopes] show ?thesis by simp
    next
      case (Inr new)
      with sc predefined_language_loop_acc[of lib r acc scopes] IH[of "acc @ new"] IH[of new]
      show ?thesis by (simp add: bind_e_assoc)
    qed
  qed
qed

lemma predefined_loop_append:
  "predefined_loop lib self acc (xs @ ys)
     = bind_e (predefined_loop lib self acc xs) (\<lambda>acc'. predefined_loop lib self acc' ys)"
proof (induction xs arbitrary: acc)
  case Nil
  show ?case by simp
next
  case (Cons r rs)
  show ?case
  proof (cases "get_recognizer_languages self r")
    case (Inl e) then show ?thesis by simp
  next
    case sc: (Inr scopes)
    show ?thesis
      by (cases "predefined_language_loop lib r acc scopes") (simp_all add: sc Cons.IH)
  qed
qed

lemma custom_loop_acc:
  "custom_loop fd self acc rs
     = bind_e (custom_loop fd self [] rs) (\<lambda>new. Inr (acc @ new))"
proof (induction rs arbitrary: acc)
  case Nil
  show ?case by simp
next
  case (Cons r rs)
  note IH = Cons.IH
  show ?case
  proof (cases "is_recognizer_enabled r")
    case (Inl e) then show ?thesis by simp
  next
    case en: (Inr enabled)
    show ?thesis
    proof (cases "py_truthy enabled")
      case False with en IH[of acc] show ?thesis by simp
    next
      case True
      show ?thesis
      proof (cases "create_custom_recognizers fd self r")
        case (Inl e) with en True show ?thesis by simp
      next
        case (Inr new)
        with en True IH[of "acc @ new"] IH[of new] show ?thesis
          by (simp add: bind_e_assoc)
      qed
    qed
  qed
qed

lemma custom_loop_append:
  "custom_loop fd self acc (xs @ ys)
     = bind_e (custom_loop fd self acc xs) (\<lambda>acc'. custom_loop fd self acc' ys)"
proof (induction xs arbitrary: acc)
  case Nil
  show ?case by simp
next
  case (Cons r rs)
  show ?case
  proof (cases "is_recognizer_enabled r")
    case (Inl e) then show ?thesis by simp
  next
    case en: (Inr enabled)
    show ?thesis
      by (cases "py_truthy enabled"; cases "create_custom_recognizers fd self r")
         (simp_all add: en Cons.IH)
  qed
qed

lemma filter_e_insert:
  assumes "filter_e p (pre @ e # post) = Inr zs"
  shows "\<exists>a b c. filter_e p pre = Inr a \<and> p e = Inr b \<and> filter_e p post = Inr c
           \<and> zs = a @ (if b then [e] else []) @ c \<and> filter_e p (pre @ post) = Inr (a @ c)"
  using assms
  by (auto simp: filter_e_append bind_e_eq_Inr)

lemma predefined_loop_split:
  "predefined_loop lib self [] (xs @ ys)
     = bind_e (predefined_loop lib self [] xs) (\<lambda>a.
         bind_e (predefined_loop lib self [] ys) (\<lambda>b. Inr (a @ b)))"
proof (cases "predefined_loop lib self [] xs")
  case (Inl e)
  then show ?thesis by (simp add: predefined_loop_append)
next
  case (Inr a)
  then show ?thesis
    using predefined_loop_acc[of lib self a ys] by (simp add: predefined_loop_append)
qed

lemma custom_loop_split:
  "custom_loop fd self [] (xs @ ys)
     = bind_e (custom_loop fd self [] xs) (\<lambda>a.
         bind_e (custom_loop fd self [] ys) (\<lambda>b. Inr (a @ b)))"
proof (cases "custom_loop fd self [] xs")
  case (Inl e)
  then show ?thesis by (simp add: custom_loop_append)
next
  case (Inr a)
  then show ?thesis
    using custom_loop_acc[of fd self a ys] by (simp add: custom_loop_append)
qed

lemma predefined_loop_three:
  assumes "predefined_loop lib self [] (a @ m @ c) = Inr X"
  shows "\<exists>xa xm xc. predefined_loop lib self [] a = Inr xa
          \<and> predefined_loop lib self [] m = Inr xm
          \<and> predefined_loop lib self [] c = Inr xc
          \<and> X = xa @ xm @ xc
          \<and> predefined_loop lib self [] (a @ c) = Inr (xa @ xc)"
  using assms
  by (auto simp: predefined_loop_split[of lib self a] predefined_loop_split[of lib self m]
                 bind_e_eq_Inr)

lemma custom_loop_three:
  assumes "custom_loop fd self [] (a @ m @ c) = Inr X"
  shows "\<exists>xa xm xc. custom_loop fd self [] a = Inr xa
          \<and> custom_loop fd self [] m = Inr xm
          \<and> custom_loop fd self [] c = Inr xc
          \<and> X = xa @ xm @ xc
          \<and> custom_loop fd self [] (a @ c) = Inr (xa @ xc)"
  using assms
  by (auto simp: custom_loop_split[of fd self a] custom_loop_split[of fd self m]
                 bind_e_eq_Inr)

lemma get_recognizer_languages_cong:
  "supported_languages a = supported_languages b \<Longrightarrow>
   get_recognizer_languages a r = get_recognizer_languages b r"
  by (simp add: get_recognizer_languages_def cong: if_cong)

lemma predefined_loop_cong:
  "supported_languages a = supported_languages b \<Longrightarrow>
   predefined_loop lib a acc rs = predefined_loop lib b acc rs"
  by (induction rs arbitrary: acc) (simp_all add: get_recognizer_languages_cong[of a b])

lemma custom_loop_cong:
  "supported_languages a = supported_languages b \<Longrightarrow>
   custom_loop fd a acc rs = custom_loop fd b acc rs"
  by (induction rs arbitrary: acc)
     (simp_all add: create_custom_recognizers_def get_recognizer_languages_cong[of a b]
               cong: if_cong)

lemma create_recognizer_registry_unfold:
  "create_recognizer_registry lib fd self =
     bind_e (resolve_field (configuration self) ''recognizers'') (\<lambda>rs.
     bind_e (resolve_field (configuration self) ''global_regex_flags'') (\<lambda>f.
     bind_e (py_iter rs) (\<lambda>entries.
     bind_e (filter_e predefined_cond entries) (\<lambda>predefined.
     bind_e (filter_e custom_cond entries) (\<lambda>custom.
     bind_e (predefined_loop lib (languages_bound self) [] predefined) (\<lambda>ps.
     bind_e (custom_loop fd (languages_bound self) [] custom) (\<lambda>cs.
       Inr \<lparr>registry_supported_languages = resolved_languages self,
            registry_recognizers = map (set_global_regex_flags f) (ps @ cs),
            registry_global_regex_flags = f\<rparr>)))))))"
  unfolding create_recognizer_registry_def resolve_languages resolve_recognizers resolve_flags
      split_recognizers_def languages_bound_def resolved_languages_def
  apply (subst custom_loop_acc)
  apply (simp add: Let_def bind_e_assoc del: map_append)
  done

lemma with_recognizers_fields:
  "resolve_field (configuration (with_recognizers self rs)) ''recognizers'' = Inr (PList rs)"
  "resolve_field (configuration (with_recognizers self rs)) ''global_regex_flags''
     = resolve_field (configuration self) ''global_regex_flags''"
  "resolved_languages (with_recognizers self rs) = resolved_languages self"
  "supported_languages (languages_bound (with_recognizers self rs)) = supported_languages (languages_bound self)"
  by (simp_all add: with_recognizers_def resolve_recognizers resolve_flags resolved_languages_def
                    languages_bound_def update_conv')

lemma entry_decomposition:
  assumes rec: "map_of (configuration self) ''recognizers'' = Some (PList (pre @ e # post))"
      and ok: "create_recognizer_registry lib fd self = Inr registry"
  shows "\<exists>bp bc ps cs registry'.
       predefined_cond e = Inr bp \<and> custom_cond e = Inr bc
     \<and> predefined_loop lib (languages_bound self) [] (if bp then [e] else []) = Inr ps
     \<and> custom_loop fd (languages_bound self) [] (if bc then [e] else []) = Inr cs
     \<and> create_recognizer_registry lib fd (with_recognizers self (pre @ post)) = Inr registry'
     \<and> length (registry_recognizers registry)
         = length (registry_recognizers registry') + length ps + length cs
     \<and> (ps = [] \<and> cs = [] \<longrightarrow> registry' = registry)"
proof -
  from rec have rr: "resolve_field (configuration self) ''recognizers'' = Inr (PList (pre @ e # post))"
    by (simp add: resolve_recognizers)
  from ok[unfolded create_recognizer_registry_unfold rr]
  obtain f P C X Y where
        f: "resolve_field (configuration self) ''global_regex_flags'' = Inr f"
    and P: "filter_e predefined_cond (pre @ e # post) = Inr P"
    and C: "filter_e custom_cond (pre @ e # post) = Inr C"
    and X: "predefined_loop lib (languages_bound self) [] P = Inr X"
    and Y: "custom_loop fd (languages_bound self) [] C = Inr Y"
    and reg: "registry = \<lparr>registry_supported_languages = resolved_languages self,
            registry_recognizers = map (set_global_regex_flags f) (X @ Y),
            registry_global_regex_flags = f\<rparr>"
    by (auto simp: bind_e_eq_Inr simp del: map_append)
  from filter_e_insert[OF P] obtain P1 bp P2 where
        P1: "filter_e predefined_cond pre = Inr P1" and bp: "predefined_cond e = Inr bp"
    and P2: "filter_e predefined_cond post = Inr P2"
    and Peq: "P = P1 @ (if bp then [e] else []) @ P2"
    and P': "filter_e predefined_cond (pre @ post) = Inr (P1 @ P2)"
    by blast
  from filter_e_insert[OF C] obtain C1 bc C2 where
        C1: "filter_e custom_cond pre = Inr C1" and bc: "custom_cond e = Inr bc"
    and C2: "filter_e custom_cond post = Inr C2"
    and Ceq: "C = C1 @ (if bc then [e] else []) @ C2"
    and C': "filter_e custom_cond (pre @ post) = Inr (C1 @ C2)"
    by blast
  from predefined_loop_three[OF X[unfolded Peq]] obtain xa ps xc where
        ps: "predefined_loop lib (languages_bound self) [] (if bp then [e] else []) = Inr ps"
    and Xeq: "X = xa @ ps @ xc"
    and X': "predefined_loop lib (languages_bound self) [] (P1 @ P2) = Inr (xa @ xc)"
    by blast
  from custom_loop_three[OF Y[unfolded Ceq]] obtain ya cs yc where
        cs: "custom_loop fd (languages_bound self) [] (if bc then [e] else []) = Inr cs"
    and Yeq: "Y = ya @ cs @ yc"
    and Y': "custom_loop fd (languages_bound self) [] (C1 @ C2) = Inr (ya @ yc)"
    by blast
  let ?self' = "with_recognizers self (pre @ post)"
  let ?reg' = "\<lparr>registry_supported_languages = resolved_languages self,
            registry_recognizers = map (set_global_regex_flags f) ((xa @ xc) @ (ya @ yc)),
            registry_global_regex_flags = f\<rparr>"
  have X'': "predefined_loop lib (languages_bound ?self') [] (P1 @ P2) = Inr (xa @ xc)"
    using X' predefined_loop_cong[OF with_recognizers_fields(4), of lib self "pre @ post"] by simp
  have Y'': "custom_loop fd (languages_bound ?self') [] (C1 @ C2) = Inr (ya @ yc)"
    using Y' custom_loop_cong[OF with_recognizers_fields(4), of fd self "pre @ post"] by simp
  have cr': "create_recognizer_registry lib fd ?self' = Inr ?reg'"
    unfolding create_recognizer_registry_unfold with_recognizers_fields
    by (simp add: f P' C' X'' Y'' del: map_append)
  have len: "length (registry_recognizers registry)
         = length (registry_recognizers ?reg') + length ps + length cs"
    by (simp add: reg Xeq Yeq)
  have same: "ps = [] \<and> cs = [] \<longrightarrow> ?reg' = registry"
    by (simp add: reg Xeq Yeq)
  from bp bc ps cs cr' len same show ?thesis by blast
qed

lemma predefined_language_loop_disabled:
  assumes "is_recognizer_enabled r = Inr v" and "\<not> py_truthy v"
  shows "predefined_language_loop lib r acc scopes = Inr acc"
  using assms by (induction scopes) simp_all


lemma map_e_length: "map_e f xs = Inr ys \<Longrightarrow> length ys = length xs"
  by (induction xs arbitrary: ys) (auto simp: bind_e_eq_Inr)

lemma entry_enabled_truthy:
  assumes "entry_enabled e" and "is_recognizer_enabled e = Inr v"
  shows "py_truthy v"
proof (cases e)
  case (PStr n)
  with assms(2) show ?thesis
    by (auto simp: is_recognizer_enabled_def split: if_splits)
next
  case (PDict d)
  with assms show ?thesis
    by (auto simp: is_recognizer_enabled_def split: if_splits option.splits)
qed (use assms(1) in simp_all)

lemma entry_conds:
  "is_predefined_entry e \<Longrightarrow> predefined_cond e = Inr True \<and> custom_cond e = Inr False"
  "is_custom_entry e \<Longrightarrow> predefined_cond e = Inr False \<and> custom_cond e = Inr True"
  by (cases e; auto simp: predefined_cond_def custom_cond_def)+

lemmas example_eval = registry_eval example_zip_def example_provider_def with_recognizers_def
  resolved_languages_def example_legacy_zip_def example_disabled_predefined_def
  example_disabled_custom_def

section \<open>Properties of the recognizer factory\<close>

lemma disabled_entry_loops:
  assumes "map_of d ''enabled'' = Some v" and "\<not> py_truthy v"
  shows "predefined_loop lib self [] [PDict d] = Inr ps \<Longrightarrow> ps = []"
    and "custom_loop fd self [] [PDict d] = Inr []"
proof -
  have en: "is_recognizer_enabled (PDict d) = Inr v"
    using assms(1) by (simp add: is_recognizer_enabled_def)
  show "predefined_loop lib self [] [PDict d] = Inr ps \<Longrightarrow> ps = []"
    by (auto simp: bind_e_eq_Inr predefined_language_loop_disabled[OF en assms(2)])
  show "custom_loop fd self [] [PDict d] = Inr []"
    using en assms(2) by simp
qed

lemma create_with_neutral_entry:
  assumes rec: "map_of (configuration self) ''recognizers'' = Some (PList (pre @ e # post))"
      and bp: "predefined_cond e = Inr bp" and bc: "custom_cond e = Inr bc"
      and np: "\<And>acc. predefined_loop lib (languages_bound self) acc (if bp then [e] else []) = Inr acc"
      and nc: "\<And>acc. custom_loop fd (languages_bound self) acc (if bc then [e] else []) = Inr acc"
  shows "create_recognizer_registry lib fd self
           = create_recognizer_registry lib fd (with_recognizers self (pre @ post))"
proof -
  let ?b = "languages_bound self"
  let ?b' = "languages_bound (with_recognizers self (pre @ post))"
  from rec have rr: "resolve_field (configuration self) ''recognizers'' = Inr (PList (pre @ e # post))"
    by (simp add: resolve_recognizers)
  have pl: "\<And>xs ys. predefined_loop lib ?b [] (xs @ (if bp then [e] else []) @ ys)
                = predefined_loop lib ?b' [] (xs @ ys)"
  proof -
    fix xs ys
    have "predefined_loop lib ?b [] (xs @ (if bp then [e] else []) @ ys)
            = predefined_loop lib ?b [] (xs @ ys)"
      by (cases "predefined_loop lib ?b [] xs")
         (simp_all add: predefined_loop_append np del: predefined_loop.simps)
    then show "predefined_loop lib ?b [] (xs @ (if bp then [e] else []) @ ys)
                = predefined_loop lib ?b' [] (xs @ ys)"
      using predefined_loop_cong[OF with_recognizers_fields(4), of lib self "pre @ post"] by simp
  qed
  have cl: "\<And>xs ys. custom_loop fd ?b [] (xs @ (if bc then [e] else []) @ ys)
                = custom_loop fd ?b' [] (xs @ ys)"
  proof -
    fix xs ys
    have "custom_loop fd ?b [] (xs @ (if bc then [e] else []) @ ys)
            = custom_loop fd ?b [] (xs @ ys)"
      by (cases "custom_loop fd ?b [] xs")
         (simp_all add: custom_loop_append nc del: custom_loop.simps)
    then show "custom_loop fd ?b [] (xs @ (if bc then [e] else []) @ ys)
                = custom_loop fd ?b' [] (xs @ ys)"
      using custom_loop_cong[OF with_recognizers_fields(4), of fd self "pre @ post"] by simp
  qed
  have fp: "filter_e predefined_cond (pre @ e # post)
              = bind_e (filter_e predefined_cond (pre @ post))
                  (\<lambda>zs. bind_e (filter_e predefined_cond pre) (\<lambda>a.
                     bind_e (filter_e predefined_cond post) (\<lambda>c.
                       Inr (a @ (if bp then [e] else []) @ c))))"
    by (cases "filter_e predefined_cond pre"; cases "filter_e predefined_cond post")
       (simp_all add: filter_e_append bp)
  show ?thesis
  proof (cases "filter_e predefined_cond pre")
    case (Inl err)
    then show ?thesis
      unfolding create_recognizer_registry_unfold with_recognizers_fields rr
      by (simp add: filter_e_append)
  next
    case P1: (Inr P1)
    show ?thesis
    proof (cases "filter_e predefined_cond post")
      case (Inl err)
      with P1 show ?thesis
        unfolding create_recognizer_registry_unfold with_recognizers_fields rr
        by (simp add: filter_e_append bp)
    next
      case P2: (Inr P2)
      show ?thesis
      proof (cases "filter_e custom_cond pre")
        case (Inl err)
        with P1 P2 show ?thesis
          unfolding create_recognizer_registry_unfold with_recognizers_fields rr
          by (simp add: filter_e_append bp)
      next
        case C1: (Inr C1)
        show ?thesis
        proof (cases "filter_e custom_cond post")
          case (Inl err)
          with P1 P2 C1 show ?thesis
            unfolding create_recognizer_registry_unfold with_recognizers_fields rr
            by (simp add: filter_e_append bp bc)
        next
          case C2: (Inr C2)
          have a: "filter_e predefined_cond (pre @ e # post) = Inr (P1 @ (if bp then [e] else []) @ P2)"
            and b: "filter_e custom_cond (pre @ e # post) = Inr (C1 @ (if bc then [e] else []) @ C2)"
            and c: "filter_e predefined_cond (pre @ post) = Inr (P1 @ P2)"
            and d: "filter_e custom_cond (pre @ post) = Inr (C1 @ C2)"
            using P1 P2 C1 C2 by (simp_all add: filter_e_append bp bc)
          show ?thesis
            unfolding create_recognizer_registry_unfold with_recognizers_fields rr
            by (simp only: py_iter.simps bind_e.simps a b c d pl cl)
        qed
      qed
    qed
  qed
qed

lemma entry_conds_mapping:
  "predefined_cond (PDict d) = Inr (is_predefined_entry (PDict d))"
  "custom_cond (PDict d) = Inr (is_custom_entry (PDict d))"
  by (auto simp: predefined_cond_def custom_cond_def)

lemma disabled_entry_loops_acc:
  assumes "map_of d ''enabled'' = Some v" and "\<not> py_truthy v"
  shows "get_recognizer_languages self (PDict d) = Inr scopes \<Longrightarrow>
         predefined_loop lib self acc [PDict d] = Inr acc"
    and "custom_loop fd self acc [PDict d] = Inr acc"
proof -
  have en: "is_recognizer_enabled (PDict d) = Inr v"
    using assms(1) by (simp add: is_recognizer_enabled_def)
  show "get_recognizer_languages self (PDict d) = Inr scopes \<Longrightarrow>
         predefined_loop lib self acc [PDict d] = Inr acc"
    by (simp add: predefined_language_loop_disabled[OF en assms(2)])
  show "custom_loop fd self acc [PDict d] = Inr acc"
    using en assms(2) by simp
qed

text \<open>
  C5. Take a configuration whose recognizer list contains a mapping with
  \<^verbatim>\<open>enabled: false\<close>, whatever its \<^verbatim>\<open>type\<close>. Whenever \<^verbatim>\<open>create_recognizer_registry\<close> returns
  a registry for it, that registry is the one returned for the configuration without
  the entry: the entry contributes no instance. Moreover the two calls have the same
  outcome altogether (registry or exception), unless the entry is predefined and its
  own language expansion raises.
\<close>

theorem disabled_entry_contributes_nothing:
  assumes rec: "map_of (configuration self) ''recognizers'' = Some (PList (pre @ PDict d # post))"
      and dis: "map_of d ''enabled'' = Some (PBool False)"
  shows "(\<forall>registry. create_recognizer_registry lib from_dict self = Inr registry \<longrightarrow>
            create_recognizer_registry lib from_dict (with_recognizers self (pre @ post))
              = Inr registry)
       \<and> ((is_predefined_entry (PDict d) \<longrightarrow>
              (\<exists>scopes. get_recognizer_languages (languages_bound self) (PDict d) = Inr scopes))
           \<longrightarrow> create_recognizer_registry lib from_dict self
                 = create_recognizer_registry lib from_dict (with_recognizers self (pre @ post)))"
proof (intro conjI allI impI)
  fix registry
  assume ok: "create_recognizer_registry lib from_dict self = Inr registry"
  from entry_decomposition[OF rec ok] obtain bp bc ps cs registry' where
        ps: "predefined_loop lib (languages_bound self) [] (if bp then [PDict d] else []) = Inr ps"
    and cs: "custom_loop from_dict (languages_bound self) [] (if bc then [PDict d] else []) = Inr cs"
    and cr: "create_recognizer_registry lib from_dict (with_recognizers self (pre @ post)) = Inr registry'"
    and same: "ps = [] \<and> cs = [] \<longrightarrow> registry' = registry"
    by blast
  have f: "\<not> py_truthy (PBool False)" by simp
  have "ps = []"
    using ps disabled_entry_loops(1)[OF dis f, of lib "languages_bound self" ps] by (cases bp) simp_all
  moreover have "cs = []"
    using cs disabled_entry_loops(2)[OF dis f, of from_dict "languages_bound self"] by (cases bc) simp_all
  ultimately show "create_recognizer_registry lib from_dict (with_recognizers self (pre @ post))
                     = Inr registry"
    using cr same by simp
next
  assume exp: "is_predefined_entry (PDict d) \<longrightarrow>
              (\<exists>scopes. get_recognizer_languages (languages_bound self) (PDict d) = Inr scopes)"
  have f: "\<not> py_truthy (PBool False)" by simp
  have np: "\<And>acc. predefined_loop lib (languages_bound self) acc
                     (if is_predefined_entry (PDict d) then [PDict d] else []) = Inr acc"
  proof -
    fix acc
    show "predefined_loop lib (languages_bound self) acc
            (if is_predefined_entry (PDict d) then [PDict d] else []) = Inr acc"
    proof (cases "is_predefined_entry (PDict d)")
      case True
      with exp obtain scopes where
        "get_recognizer_languages (languages_bound self) (PDict d) = Inr scopes" by blast
      from disabled_entry_loops_acc(1)[OF dis f this] True show ?thesis by simp
    next
      case False
      then show ?thesis by simp
    qed
  qed
  have nc: "\<And>acc. custom_loop from_dict (languages_bound self) acc
                     (if is_custom_entry (PDict d) then [PDict d] else []) = Inr acc"
    using disabled_entry_loops_acc(2)[OF dis f] by simp
  show "create_recognizer_registry lib from_dict self
          = create_recognizer_registry lib from_dict (with_recognizers self (pre @ post))"
    by (rule create_with_neutral_entry[OF rec entry_conds_mapping np nc])
qed

theorem disabled_entry_contributes_nothing_witness:
  "map_of example_disabled_predefined ''enabled'' = Some (PBool False)
   \<and> map_of example_disabled_custom ''enabled'' = Some (PBool False)
   \<and> (\<exists>registry.
         create_recognizer_registry example_library example_from_dict
           (example_provider [PStr ''en'']
              [PDict example_disabled_predefined, example_zip, PDict example_disabled_custom])
           = Inr registry
       \<and> create_recognizer_registry example_library example_from_dict
           (with_recognizers
              (example_provider [PStr ''en'']
                 [PDict example_disabled_predefined, example_zip, PDict example_disabled_custom])
              ([] @ [example_zip, PDict example_disabled_custom]))
           = Inr registry
       \<and> create_recognizer_registry example_library example_from_dict
           (with_recognizers
              (example_provider [PStr ''en'']
                 [PDict example_disabled_predefined, example_zip, PDict example_disabled_custom])
              ([PDict example_disabled_predefined, example_zip] @ []))
           = Inr registry
       \<and> length (registry_recognizers registry) = 1)"
proof -
  let ?self = "example_provider [PStr ''en'']
                 [PDict example_disabled_predefined, example_zip, PDict example_disabled_custom]"
  have rec1: "map_of (configuration ?self) ''recognizers''
               = Some (PList ([] @ PDict example_disabled_predefined
                                # [example_zip, PDict example_disabled_custom]))"
    by (simp add: example_provider_def)
  have rec2: "map_of (configuration ?self) ''recognizers''
               = Some (PList ([PDict example_disabled_predefined, example_zip]
                                @ PDict example_disabled_custom # []))"
    by (simp add: example_provider_def)
  have d1: "map_of example_disabled_predefined ''enabled'' = Some (PBool False)"
    by (simp add: example_disabled_predefined_def)
  have d2: "map_of example_disabled_custom ''enabled'' = Some (PBool False)"
    by (simp add: example_disabled_custom_def)
  have e1: "\<exists>scopes. get_recognizer_languages (languages_bound ?self)
                       (PDict example_disabled_predefined) = Inr scopes"
    by (simp add: example_eval languages_bound_def)
  have e2: "\<not> is_predefined_entry (PDict example_disabled_custom)"
    by (simp add: example_disabled_custom_def)
  obtain registry where ok: "create_recognizer_registry example_library example_from_dict ?self
                               = Inr registry"
    and one: "length (registry_recognizers registry) = 1"
    by (simp add: example_eval)
  have a: "create_recognizer_registry example_library example_from_dict ?self
           = create_recognizer_registry example_library example_from_dict
               (with_recognizers ?self ([] @ [example_zip, PDict example_disabled_custom]))"
    using disabled_entry_contributes_nothing[OF rec1 d1, of example_library example_from_dict] e1
    by blast
  have b: "create_recognizer_registry example_library example_from_dict ?self
           = create_recognizer_registry example_library example_from_dict
               (with_recognizers ?self ([PDict example_disabled_predefined, example_zip] @ []))"
    using disabled_entry_contributes_nothing[OF rec2 d2, of example_library example_from_dict] e2
    by blast
  from a b d1 d2 ok one show ?thesis by metis
qed

section \<open>The instances of one entry\<close>

lemma map_of_drop_keys:
  "map_of (drop_keys ks items) k = (if k \<in> set ks then None else map_of items k)"
  by (induction items) (auto simp: drop_keys_def)

lemma map_of_scoped_kwargs:
  "map_of (dict_merge a (language_scope l c)) k
     = (if k = ''context'' then Some c else if k = ''supported_language'' then Some l
        else map_of a k)"
  by (simp add: dict_merge_def language_scope_def update_conv')

lemma predefined_language_loop_map_e:
  assumes "predefined_language_loop lib r [] scopes = Inr ps"
      and "\<And>v. is_recognizer_enabled r = Inr v \<Longrightarrow> py_truthy v"
  shows "map_e (predefined_instance lib r) scopes = Inr ps"
  using assms(1)
proof (induction scopes arbitrary: ps)
  case Nil
  then show ?case by simp
next
  case (Cons s scopes)
  from Cons.prems obtain v where v: "is_recognizer_enabled r = Inr v"
    by (auto simp: bind_e_eq_Inr)
  with assms(2) have t: "py_truthy v" by simp
  from Cons.prems v t obtain inst where
    inst: "predefined_instance lib r s = Inr inst"
    and rest: "predefined_language_loop lib r [inst] scopes = Inr ps"
    by (auto simp: bind_e_eq_Inr Let_def predefined_instance_def)
  from rest obtain new where new: "predefined_language_loop lib r [] scopes = Inr new"
    and ps: "ps = [inst] @ new"
    using predefined_language_loop_acc[of lib r "[inst]" scopes]
    by (auto simp: bind_e_eq_Inr)
  from Cons.IH[OF new] ps inst show ?case by simp
qed




lemma map_e_all:
  assumes "map_e f xs = Inr ys" and "\<And>x y. f x = Inr y \<Longrightarrow> P y"
  shows "\<forall>y \<in> set ys. P y"
  using assms(1)
proof (induction xs arbitrary: ys)
  case Nil
  then show ?case by simp
next
  case (Cons x xs)
  then obtain y rest where "f x = Inr y" "map_e f xs = Inr rest" "ys = y # rest"
    by (auto simp: bind_e_eq_Inr)
  with Cons.IH[of rest] assms(2)[of x y] show ?case by simp
qed

lemma scopes_are_language_scopes:
  assumes "get_recognizer_languages self e = Inr scopes"
  shows "\<forall>s \<in> set scopes. \<exists>l c. s = language_scope l c"
proof -
  from assms consider
      (wide) languages where
        "map_e (\<lambda>language. bind_e (get_recognizer_context e) (\<lambda>ctx.
                  Inr (language_scope language ctx))) languages = Inr scopes"
    | (plain) languages where
        "scopes = map (\<lambda>language. language_scope language PNone) languages"
    | (scoped) languages where
        "map_e (\<lambda>language. bind_e (py_getitem language ''language'') (\<lambda>l.
                  bind_e (py_getitem language ''context'') (\<lambda>ctx.
                    Inr (language_scope l ctx)))) languages = Inr scopes"
    unfolding get_recognizer_languages_def
    by (auto simp: bind_e_eq_Inr split: if_splits)
  then show ?thesis
  proof cases
    case wide
    show ?thesis
      by (rule map_e_all[OF wide]) (auto simp: bind_e_eq_Inr)
  next
    case plain
    then show ?thesis by auto
  next
    case scoped
    show ?thesis
      by (rule map_e_all[OF scoped]) (auto simp: bind_e_eq_Inr)
  qed
qed

lemma entry_decomposition_instances:
  assumes rec: "map_of (configuration self) ''recognizers'' = Some (PList (pre @ e # post))"
      and ok: "create_recognizer_registry lib fd self = Inr registry"
  shows "\<exists>bp bc ps cs xa xc ya yc f.
       predefined_cond e = Inr bp \<and> custom_cond e = Inr bc
     \<and> predefined_loop lib (languages_bound self) [] (if bp then [e] else []) = Inr ps
     \<and> custom_loop fd (languages_bound self) [] (if bc then [e] else []) = Inr cs
     \<and> registry_recognizers registry
         = map (set_global_regex_flags f) (xa @ ps @ xc @ ya @ cs @ yc)
     \<and> create_recognizer_registry lib fd (with_recognizers self (pre @ post))
         = Inr (registry\<lparr>registry_recognizers :=
                   map (set_global_regex_flags f) (xa @ xc @ ya @ yc)\<rparr>)"
proof -
  from rec have rr: "resolve_field (configuration self) ''recognizers'' = Inr (PList (pre @ e # post))"
    by (simp add: resolve_recognizers)
  from ok[unfolded create_recognizer_registry_unfold rr]
  obtain f P C X Y where
        f: "resolve_field (configuration self) ''global_regex_flags'' = Inr f"
    and P: "filter_e predefined_cond (pre @ e # post) = Inr P"
    and C: "filter_e custom_cond (pre @ e # post) = Inr C"
    and X: "predefined_loop lib (languages_bound self) [] P = Inr X"
    and Y: "custom_loop fd (languages_bound self) [] C = Inr Y"
    and reg: "registry = \<lparr>registry_supported_languages = resolved_languages self,
            registry_recognizers = map (set_global_regex_flags f) (X @ Y),
            registry_global_regex_flags = f\<rparr>"
    by (auto simp: bind_e_eq_Inr simp del: map_append)
  from filter_e_insert[OF P] obtain P1 bp P2 where
        bp: "predefined_cond e = Inr bp"
    and Peq: "P = P1 @ (if bp then [e] else []) @ P2"
    and P': "filter_e predefined_cond (pre @ post) = Inr (P1 @ P2)"
    by blast
  from filter_e_insert[OF C] obtain C1 bc C2 where
        bc: "custom_cond e = Inr bc"
    and Ceq: "C = C1 @ (if bc then [e] else []) @ C2"
    and C': "filter_e custom_cond (pre @ post) = Inr (C1 @ C2)"
    by blast
  from predefined_loop_three[OF X[unfolded Peq]] obtain xa ps xc where
        ps: "predefined_loop lib (languages_bound self) [] (if bp then [e] else []) = Inr ps"
    and Xeq: "X = xa @ ps @ xc"
    and X': "predefined_loop lib (languages_bound self) [] (P1 @ P2) = Inr (xa @ xc)"
    by blast
  from custom_loop_three[OF Y[unfolded Ceq]] obtain ya cs yc where
        cs: "custom_loop fd (languages_bound self) [] (if bc then [e] else []) = Inr cs"
    and Yeq: "Y = ya @ cs @ yc"
    and Y': "custom_loop fd (languages_bound self) [] (C1 @ C2) = Inr (ya @ yc)"
    by blast
  let ?self' = "with_recognizers self (pre @ post)"
  have X'': "predefined_loop lib (languages_bound ?self') [] (P1 @ P2) = Inr (xa @ xc)"
    using X' predefined_loop_cong[OF with_recognizers_fields(4), of lib self "pre @ post"] by simp
  have Y'': "custom_loop fd (languages_bound ?self') [] (C1 @ C2) = Inr (ya @ yc)"
    using Y' custom_loop_cong[OF with_recognizers_fields(4), of fd self "pre @ post"] by simp
  have cr': "create_recognizer_registry lib fd ?self'
               = Inr (registry\<lparr>registry_recognizers :=
                   map (set_global_regex_flags f) (xa @ xc @ ya @ yc)\<rparr>)"
    unfolding create_recognizer_registry_unfold with_recognizers_fields
    by (simp add: f P' C' X'' Y'' reg del: map_append)
  have rc: "registry_recognizers registry
         = map (set_global_regex_flags f) (xa @ ps @ xc @ ya @ cs @ yc)"
    by (simp add: reg Xeq Yeq)
  from bp bc ps cs cr' rc show ?thesis by blast
qed


lemma predefined_entry_instances:
  assumes en: "entry_enabled e"
      and ps: "predefined_loop lib self [] [e] = Inr ps"
  shows "\<exists>scopes. get_recognizer_languages self e = Inr scopes
           \<and> map_e (predefined_instance lib e) scopes = Inr ps"
proof -
  from ps obtain scopes where
    sc: "get_recognizer_languages self e = Inr scopes"
    and lp: "predefined_language_loop lib e [] scopes = Inr ps"
    by (auto simp: bind_e_eq_Inr)
  have "map_e (predefined_instance lib e) scopes = Inr ps"
    using predefined_language_loop_map_e[OF lp] entry_enabled_truthy[OF en] by blast
  with sc show ?thesis by blast
qed


lemmas example_eval_instances = example_eval example_unclassified_def example_legacy_predefined_def
  example_card_instance_def example_zip_instance_def example_legacy_zip_instance_def
  example_registry_def

lemma mapping_registry_wide_scopes:
  assumes "map_of d ''supported_languages'' = None"
      and "get_recognizer_languages self (PDict d) = Inr scopes"
  shows "\<exists>languages ctx. py_iter (supported_languages self) = Inr languages
           \<and> get_recognizer_context (PDict d) = Inr ctx
           \<and> scopes = map (\<lambda>language. language_scope language ctx) languages"
proof -
  let ?ctx = "case map_of d ''context'' of None \<Rightarrow> PNone | Some v \<Rightarrow> v"
  from assms obtain languages where it: "py_iter (supported_languages self) = Inr languages"
    by (auto simp: get_recognizer_languages_def bind_e_eq_Inr)
  with assms have "scopes = map (\<lambda>language. language_scope language ?ctx) languages"
    by (simp add: get_recognizer_languages_def get_recognizer_context_def
                  map_e_total[where g = "\<lambda>language. language_scope language ?ctx"])
  with it show ?thesis by (auto simp: get_recognizer_context_def)
qed




text \<open>
  C2, as amended. Take a configuration whose recognizer list contains, at some position,
  an enabled mapping that carries \<^verbatim>\<open>supported_language\<close>, and let
  \<^verbatim>\<open>create_recognizer_registry\<close> return a registry for it. If the entry is custom, the
  registry holds exactly one instance in its place, \<^verbatim>\<open>PatternRecognizer.from_dict\<close> of the
  whole entry, however many registry-wide languages there are. If the entry is
  predefined, it is expanded: the registry holds one instance per language scope of the
  entry (one per registry-wide supported language when the entry has no
  \<^verbatim>\<open>supported_languages\<close>), each constructed with the scope's language as
  \<^verbatim>\<open>supported_language\<close> in place of the entry's own.
\<close>

theorem supported_language_entry_instances:
  assumes rec: "map_of (configuration self) ''recognizers'' = Some (PList (pre @ PDict d # post))"
      and legacy: "map_of d ''supported_language'' = Some language"
      and en: "entry_enabled (PDict d)"
      and ok: "create_recognizer_registry lib from_dict self = Inr registry"
  shows "(is_custom_entry (PDict d) \<longrightarrow>
           (\<exists>inst f before after.
               from_dict (PDict d) = Inr inst
             \<and> registry_recognizers registry
                 = map (set_global_regex_flags f) (before @ [inst] @ after)
             \<and> create_recognizer_registry lib from_dict (with_recognizers self (pre @ post))
                 = Inr (registry\<lparr>registry_recognizers :=
                          map (set_global_regex_flags f) (before @ after)\<rparr>)))
       \<and> (is_predefined_entry (PDict d) \<longrightarrow>
           (\<exists>scopes new f before after.
               get_recognizer_languages (languages_bound self) (PDict d) = Inr scopes
             \<and> (\<forall>s \<in> set scopes. \<exists>l c. s = language_scope l c)
             \<and> map_e (predefined_instance lib (PDict d)) scopes = Inr new
             \<and> length new = length scopes
             \<and> registry_recognizers registry
                 = map (set_global_regex_flags f) (before @ new @ after)
             \<and> create_recognizer_registry lib from_dict (with_recognizers self (pre @ post))
                 = Inr (registry\<lparr>registry_recognizers :=
                          map (set_global_regex_flags f) (before @ after)\<rparr>)
             \<and> (map_of d ''supported_languages'' = None \<longrightarrow>
                  (\<exists>languages ctx.
                      py_iter (resolved_languages self) = Inr languages
                    \<and> scopes = map (\<lambda>l. language_scope l ctx) languages))))
       \<and> (\<forall>kwargs l c.
            map_of (dict_merge kwargs (language_scope l c)) ''supported_language'' = Some l)"
proof (intro conjI impI allI)
  from entry_decomposition_instances[OF rec ok] obtain bp bc ps cs xa xc ya yc f where
        bp: "predefined_cond (PDict d) = Inr bp" and bc: "custom_cond (PDict d) = Inr bc"
    and ps: "predefined_loop lib (languages_bound self) [] (if bp then [PDict d] else []) = Inr ps"
    and cs: "custom_loop from_dict (languages_bound self) [] (if bc then [PDict d] else []) = Inr cs"
    and rc: "registry_recognizers registry
               = map (set_global_regex_flags f) (xa @ ps @ xc @ ya @ cs @ yc)"
    and cr: "create_recognizer_registry lib from_dict (with_recognizers self (pre @ post))
               = Inr (registry\<lparr>registry_recognizers :=
                        map (set_global_regex_flags f) (xa @ xc @ ya @ yc)\<rparr>)"
    by blast
  {
    assume c: "is_custom_entry (PDict d)"
    from entry_conds(2)[OF c] bp bc ps cs
    have cs1: "custom_loop from_dict (languages_bound self) [] [PDict d] = Inr cs" and p0: "ps = []"
      by auto
    from cs1 obtain v where v: "is_recognizer_enabled (PDict d) = Inr v"
      by (auto simp: bind_e_eq_Inr)
    with en have t: "py_truthy v" by (rule entry_enabled_truthy)
    from cs1 v t legacy obtain inst where inst: "from_dict (PDict d) = Inr inst" and c1: "cs = [inst]"
      by (auto simp: bind_e_eq_Inr create_custom_recognizers_def)
    from rc p0 c1 have rc': "registry_recognizers registry
                 = map (set_global_regex_flags f) ((xa @ xc @ ya) @ [inst] @ yc)" by simp
    from cr have cr': "create_recognizer_registry lib from_dict (with_recognizers self (pre @ post))
               = Inr (registry\<lparr>registry_recognizers :=
                        map (set_global_regex_flags f) ((xa @ xc @ ya) @ yc)\<rparr>)" by simp
    from inst rc' cr' show "\<exists>inst f before after.
               from_dict (PDict d) = Inr inst
             \<and> registry_recognizers registry
                 = map (set_global_regex_flags f) (before @ [inst] @ after)
             \<and> create_recognizer_registry lib from_dict (with_recognizers self (pre @ post))
                 = Inr (registry\<lparr>registry_recognizers :=
                          map (set_global_regex_flags f) (before @ after)\<rparr>)"
      by (intro exI[of _ inst] exI[of _ f] exI[of _ "xa @ xc @ ya"] exI[of _ yc] conjI)
         assumption+
  }
  {
    assume p: "is_predefined_entry (PDict d)"
    from entry_conds(1)[OF p] bp bc ps cs
    have ps1: "predefined_loop lib (languages_bound self) [] [PDict d] = Inr ps" and c0: "cs = []"
      by auto
    from predefined_entry_instances[OF en ps1] obtain scopes where
          sc: "get_recognizer_languages (languages_bound self) (PDict d) = Inr scopes"
      and m: "map_e (predefined_instance lib (PDict d)) scopes = Inr ps"
      by blast
    from m have l: "length ps = length scopes" by (rule map_e_length)
    from rc c0 have rc': "registry_recognizers registry
                 = map (set_global_regex_flags f) (xa @ ps @ (xc @ ya @ yc))" by simp
    from cr have cr': "create_recognizer_registry lib from_dict (with_recognizers self (pre @ post))
               = Inr (registry\<lparr>registry_recognizers :=
                        map (set_global_regex_flags f) (xa @ (xc @ ya @ yc))\<rparr>)" by simp
    have w: "map_of d ''supported_languages'' = None \<longrightarrow>
                  (\<exists>languages ctx.
                      py_iter (resolved_languages self) = Inr languages
                    \<and> scopes = map (\<lambda>l. language_scope l ctx) languages)"
      using mapping_registry_wide_scopes[OF _ sc] by (auto simp: languages_bound_def)
    from sc scopes_are_language_scopes[OF sc] m l rc' cr' w
    show "\<exists>scopes new f before after.
               get_recognizer_languages (languages_bound self) (PDict d) = Inr scopes
             \<and> (\<forall>s \<in> set scopes. \<exists>l c. s = language_scope l c)
             \<and> map_e (predefined_instance lib (PDict d)) scopes = Inr new
             \<and> length new = length scopes
             \<and> registry_recognizers registry
                 = map (set_global_regex_flags f) (before @ new @ after)
             \<and> create_recognizer_registry lib from_dict (with_recognizers self (pre @ post))
                 = Inr (registry\<lparr>registry_recognizers :=
                          map (set_global_regex_flags f) (before @ after)\<rparr>)
             \<and> (map_of d ''supported_languages'' = None \<longrightarrow>
                  (\<exists>languages ctx.
                      py_iter (resolved_languages self) = Inr languages
                    \<and> scopes = map (\<lambda>l. language_scope l ctx) languages))"
      by (intro exI[of _ scopes] exI[of _ ps] exI[of _ f] exI[of _ xa]
                exI[of _ "xc @ ya @ yc"] conjI) assumption+
  }
  fix kwargs l c
  show "map_of (dict_merge kwargs (language_scope l c)) ''supported_language'' = Some l"
    by (simp add: map_of_scoped_kwargs)
qed

theorem supported_language_entry_instances_witness:
  "map_of example_legacy_zip ''supported_language'' = Some (PStr ''fr'')
   \<and> is_custom_entry (PDict example_legacy_zip) \<and> entry_enabled (PDict example_legacy_zip)
   \<and> map_of example_legacy_predefined ''supported_language'' = Some (PStr ''en'')
   \<and> is_predefined_entry (PDict example_legacy_predefined)
   \<and> entry_enabled (PDict example_legacy_predefined)
   \<and> create_recognizer_registry example_library example_from_dict
        (example_provider [PStr ''en'', PStr ''de'']
           [PDict example_legacy_zip, PDict example_legacy_predefined])
      = Inr (example_registry [PStr ''en'', PStr ''de'']
               [example_card_instance ''en'', example_card_instance ''de'',
                example_legacy_zip_instance])
   \<and> create_recognizer_registry example_library example_from_dict
        (with_recognizers
           (example_provider [PStr ''en'', PStr ''de'']
              [PDict example_legacy_zip, PDict example_legacy_predefined])
           ([] @ [PDict example_legacy_predefined]))
      = Inr (example_registry [PStr ''en'', PStr ''de'']
               [example_card_instance ''en'', example_card_instance ''de''])
   \<and> create_recognizer_registry example_library example_from_dict
        (with_recognizers
           (example_provider [PStr ''en'', PStr ''de'']
              [PDict example_legacy_zip, PDict example_legacy_predefined])
           ([PDict example_legacy_zip] @ []))
      = Inr (example_registry [PStr ''en'', PStr ''de''] [example_legacy_zip_instance])
   \<and> (\<exists>inst. example_from_dict (PDict example_legacy_zip) = Inr inst)
   \<and> (\<exists>scopes new.
         get_recognizer_languages
           (languages_bound (example_provider [PStr ''en'', PStr ''de'']
              [PDict example_legacy_zip, PDict example_legacy_predefined]))
           (PDict example_legacy_predefined) = Inr scopes
       \<and> map_e (predefined_instance example_library (PDict example_legacy_predefined)) scopes
           = Inr new
       \<and> length new = length scopes
       \<and> (\<exists>languages ctx.
             py_iter (resolved_languages (example_provider [PStr ''en'', PStr ''de'']
                        [PDict example_legacy_zip, PDict example_legacy_predefined]))
               = Inr languages
           \<and> scopes = map (\<lambda>l. language_scope l ctx) languages))"
proof -
  let ?self = "example_provider [PStr ''en'', PStr ''de'']
                 [PDict example_legacy_zip, PDict example_legacy_predefined]"
  let ?reg = "example_registry [PStr ''en'', PStr ''de'']
               [example_card_instance ''en'', example_card_instance ''de'',
                example_legacy_zip_instance]"
  have rec1: "map_of (configuration ?self) ''recognizers''
               = Some (PList ([] @ PDict example_legacy_zip # [PDict example_legacy_predefined]))"
    by (simp add: example_provider_def)
  have rec2: "map_of (configuration ?self) ''recognizers''
               = Some (PList ([PDict example_legacy_zip] @ PDict example_legacy_predefined # []))"
    by (simp add: example_provider_def)
  have l1: "map_of example_legacy_zip ''supported_language'' = Some (PStr ''fr'')"
    by (simp add: example_legacy_zip_def)
  have l2: "map_of example_legacy_predefined ''supported_language'' = Some (PStr ''en'')"
    by (simp add: example_legacy_predefined_def)
  have k1: "is_custom_entry (PDict example_legacy_zip)" by (simp add: example_legacy_zip_def)
  have k2: "is_predefined_entry (PDict example_legacy_predefined)"
    by (simp add: example_legacy_predefined_def)
  have e1: "entry_enabled (PDict example_legacy_zip)" by (simp add: example_legacy_zip_def)
  have e2: "entry_enabled (PDict example_legacy_predefined)"
    by (simp add: example_legacy_predefined_def)
  have n2: "map_of example_legacy_predefined ''supported_languages'' = None"
    by (simp add: example_legacy_predefined_def)
  have ok: "create_recognizer_registry example_library example_from_dict ?self = Inr ?reg"
    by (simp add: example_eval_instances)
  from supported_language_entry_instances[OF rec1 l1 e1 ok] k1
  have a: "\<exists>inst. example_from_dict (PDict example_legacy_zip) = Inr inst" by blast
  from supported_language_entry_instances[OF rec2 l2 e2 ok] k2 n2
  have b: "\<exists>scopes new.
         get_recognizer_languages (languages_bound ?self) (PDict example_legacy_predefined)
           = Inr scopes
       \<and> map_e (predefined_instance example_library (PDict example_legacy_predefined)) scopes
           = Inr new
       \<and> length new = length scopes
       \<and> (\<exists>languages ctx.
             py_iter (resolved_languages ?self) = Inr languages
           \<and> scopes = map (\<lambda>l. language_scope l ctx) languages)"
    by blast
  have w1: "create_recognizer_registry example_library example_from_dict
        (with_recognizers ?self ([] @ [PDict example_legacy_predefined]))
      = Inr (example_registry [PStr ''en'', PStr ''de'']
               [example_card_instance ''en'', example_card_instance ''de''])"
    by (simp add: example_eval_instances)
  have w2: "create_recognizer_registry example_library example_from_dict
        (with_recognizers ?self ([PDict example_legacy_zip] @ []))
      = Inr (example_registry [PStr ''en'', PStr ''de''] [example_legacy_zip_instance])"
    by (simp add: example_eval_instances)
  from l1 k1 e1 l2 k2 e2 ok w1 w2 a b show ?thesis by simp
qed

text \<open>
  C2, as stated, fails for a predefined entry: one that carries \<^verbatim>\<open>supported_language\<close>
  is still expanded, here into two instances for the two registry-wide languages (the
  scope's language replaces the entry's own).
\<close>

theorem legacy_predefined_entry_is_expanded:
  "create_recognizer_registry example_library example_from_dict
     \<lparr>configuration =
        [(''supported_languages'', PList [PStr ''en'', PStr ''de'']),
         (''recognizers'',
            PList [PDict [(''name'', PStr ''CreditCardRecognizer''),
                          (''type'', PStr ''predefined''),
                          (''supported_language'', PStr ''en'')]])],
      supported_languages = PNone\<rparr>
   = Inr \<lparr>registry_supported_languages = PList [PStr ''en'', PStr ''de''],
          registry_recognizers =
            [PatternRecognizer ''CreditCardRecognizer''
               [(''supported_language'', PStr ''en''), (''context'', PNone)] (PInt 26),
             PatternRecognizer ''CreditCardRecognizer''
               [(''supported_language'', PStr ''de''), (''context'', PNone)] (PInt 26)],
          registry_global_regex_flags = PInt 26\<rparr>"
  by (simp add: registry_eval)

text \<open>
  C1. A bare predefined name that the library does not resolve: \<^verbatim>\<open>getattr\<close> returns its
  default \<^verbatim>\<open>None\<close>, which is then called, so \<^verbatim>\<open>create_recognizer_registry\<close> raises
  \<^verbatim>\<open>TypeError\<close> instead of skipping the entry.
\<close>

theorem unresolvable_predefined_name_raises:
  "create_recognizer_registry (\<lambda>name. None) example_from_dict
     \<lparr>configuration =
        [(''supported_languages'', PList [PStr ''en'']),
         (''recognizers'', PList [PStr ''CreditCardRecognizer''])],
      supported_languages = PNone\<rparr>
   = Inl TypeError"
  by (simp add: registry_eval)

lemma is_recognizer_enabled_bare_name:
  "is_recognizer_enabled (PStr name)
     = (if sublist ''enabled'' name then Inl TypeError else Inr (PBool True))"
  by (simp add: is_recognizer_enabled_def)

lemma bare_name_scopes:
  assumes "py_iter (supported_languages self) = Inr languages"
  shows "get_recognizer_languages self (PStr name)
           = Inr (map (\<lambda>language. language_scope language PNone) languages)"
  using assms
  by (simp add: get_recognizer_languages_def get_recognizer_context_def
                map_e_total[where g = "\<lambda>language. language_scope language PNone"])

lemma bare_name_entry_raises:
  assumes "sublist ''enabled'' name" and "py_iter (supported_languages self) = Inr (l # ls)"
  shows "predefined_loop lib self acc (PStr name # rest) = Inl TypeError"
  using assms(1) by (simp add: bare_name_scopes[OF assms(2)] is_recognizer_enabled_bare_name)

lemma create_split_raises:
  assumes "map_of (configuration self) ''recognizers'' = Some rs"
      and "split_recognizers rs = Inl err"
  shows "create_recognizer_registry lib fd self = Inl err"
  using assms
  by (simp add: create_recognizer_registry_def resolve_languages resolve_recognizers
                resolve_flags Let_def)

lemma create_after_split:
  assumes "map_of (configuration self) ''recognizers'' = Some rs"
      and "split_recognizers rs = Inr (predefined, custom)"
  shows "create_recognizer_registry lib fd self
           = bind_e (predefined_loop lib (languages_bound self) [] predefined) (\<lambda>ps.
               bind_e (custom_loop fd (languages_bound self) ps custom) (\<lambda>insts.
                 Inr \<lparr>registry_supported_languages = resolved_languages self,
                      registry_recognizers =
                        map (set_global_regex_flags
                               (case map_of (configuration self) ''global_regex_flags'' of
                                  None \<Rightarrow> PInt (re_DOTALL OR re_MULTILINE OR re_IGNORECASE)
                                | Some v \<Rightarrow> v)) insts,
                      registry_global_regex_flags =
                        (case map_of (configuration self) ''global_regex_flags'' of
                           None \<Rightarrow> PInt (re_DOTALL OR re_MULTILINE OR re_IGNORECASE)
                         | Some v \<Rightarrow> v)\<rparr>))"
  using assms
  by (simp add: create_recognizer_registry_def resolve_languages resolve_recognizers
                resolve_flags Let_def languages_bound_def resolved_languages_def)

lemma split_predefined_part:
  assumes "split_recognizers (PList (pre @ PStr name # post)) = Inr (predefined, custom)"
  shows "\<exists>earlier later. filter_e predefined_cond pre = Inr earlier
           \<and> predefined = earlier @ PStr name # later"
proof -
  from assms have "filter_e predefined_cond (pre @ PStr name # post) = Inr predefined"
    by (auto simp: split_recognizers_def bind_e_eq_Inr)
  from filter_e_insert[OF this] obtain a b c where
    "filter_e predefined_cond pre = Inr a" "predefined_cond (PStr name) = Inr b"
    "predefined = a @ (if b then [PStr name] else []) @ c"
    by blast
  moreover from this have "b" by (simp add: predefined_cond_def)
  ultimately show ?thesis by auto
qed

lemma bare_name_without_languages:
  assumes "py_iter (supported_languages self) = Inr []"
  shows "predefined_loop lib self acc [PStr name] = Inr acc"
  by (simp add: bare_name_scopes[OF assms])

text \<open>
  C10, as amended. On a bare name the enabled check is a substring test: for a name
  without \<^verbatim>\<open>enabled\<close> in it the check returns true, for a name with it the check raises
  \<^verbatim>\<open>TypeError\<close>. The check runs once per language scope of the entry. With a non-empty
  registry-wide language list, processing such an entry raises that \<^verbatim>\<open>TypeError\<close>, so
  \<^verbatim>\<open>create_recognizer_registry\<close> fails: with that \<^verbatim>\<open>TypeError\<close> when the recognizer list
  was classified without error and the predefined entries before it were processed
  without error, otherwise with the error of the classification or of the earlier
  predefined entry. With an empty registry-wide language list the check is never
  evaluated for a bare name, and \<^verbatim>\<open>create_recognizer_registry\<close> has the outcome it has for
  the configuration without the entry.
\<close>

theorem enabled_check_on_bare_name:
  "(\<not> sublist ''enabled'' name \<longrightarrow> is_recognizer_enabled (PStr name) = Inr (PBool True))
   \<and> (sublist ''enabled'' name \<longrightarrow> is_recognizer_enabled (PStr name) = Inl TypeError)
   \<and> (\<forall>self pre post.
         map_of (configuration self) ''recognizers'' = Some (PList (pre @ PStr name # post)) \<longrightarrow>
           (py_iter (resolved_languages self) = Inr [] \<longrightarrow>
              create_recognizer_registry lib from_dict self
                = create_recognizer_registry lib from_dict (with_recognizers self (pre @ post)))
         \<and> (\<forall>err. split_recognizers (PList (pre @ PStr name # post)) = Inl err \<longrightarrow>
              create_recognizer_registry lib from_dict self = Inl err)
         \<and> (\<forall>predefined custom earlier err.
                split_recognizers (PList (pre @ PStr name # post)) = Inr (predefined, custom)
              \<and> filter_e predefined_cond pre = Inr earlier
              \<and> predefined_loop lib (languages_bound self) [] earlier = Inl err \<longrightarrow>
              create_recognizer_registry lib from_dict self = Inl err)
         \<and> (sublist ''enabled'' name
              \<and> (\<exists>l ls. py_iter (resolved_languages self) = Inr (l # ls)) \<longrightarrow>
                (\<forall>acc later. predefined_loop lib (languages_bound self) acc (PStr name # later)
                                = Inl TypeError)
              \<and> (\<exists>err. create_recognizer_registry lib from_dict self = Inl err)
              \<and> (\<forall>predefined custom earlier acc.
                     split_recognizers (PList (pre @ PStr name # post)) = Inr (predefined, custom)
                   \<and> filter_e predefined_cond pre = Inr earlier
                   \<and> predefined_loop lib (languages_bound self) [] earlier = Inr acc \<longrightarrow>
                   create_recognizer_registry lib from_dict self = Inl TypeError)))"
proof (intro conjI impI allI)
  assume "\<not> sublist ''enabled'' name"
  then show "is_recognizer_enabled (PStr name) = Inr (PBool True)"
    by (simp add: is_recognizer_enabled_bare_name)
next
  assume "sublist ''enabled'' name"
  then show "is_recognizer_enabled (PStr name) = Inl TypeError"
    by (simp add: is_recognizer_enabled_bare_name)
next
  fix self :: provider and pre post
  assume rec: "map_of (configuration self) ''recognizers'' = Some (PList (pre @ PStr name # post))"
    and empty: "py_iter (resolved_languages self) = Inr []"
  have it: "py_iter (supported_languages (languages_bound self)) = Inr []"
    using empty by (simp add: languages_bound_def)
  have bp: "predefined_cond (PStr name) = Inr True" and bc: "custom_cond (PStr name) = Inr False"
    by (simp_all add: predefined_cond_def custom_cond_def)
  show "create_recognizer_registry lib from_dict self
          = create_recognizer_registry lib from_dict (with_recognizers self (pre @ post))"
    by (rule create_with_neutral_entry[OF rec bp bc])
       (simp_all add: bare_name_without_languages[OF it] del: predefined_loop.simps)
next
  fix self :: provider and pre post err
  assume rec: "map_of (configuration self) ''recognizers'' = Some (PList (pre @ PStr name # post))"
    and "split_recognizers (PList (pre @ PStr name # post)) = Inl err"
  then show "create_recognizer_registry lib from_dict self = Inl err"
    by (rule create_split_raises)
next
  fix self :: provider and pre post predefined custom earlier err
  assume rec: "map_of (configuration self) ''recognizers'' = Some (PList (pre @ PStr name # post))"
    and h: "split_recognizers (PList (pre @ PStr name # post)) = Inr (predefined, custom)
              \<and> filter_e predefined_cond pre = Inr earlier
              \<and> predefined_loop lib (languages_bound self) [] earlier = Inl err"
  from split_predefined_part[of pre name post predefined custom] h obtain later where
    "predefined = earlier @ PStr name # later" by auto
  with h have "predefined_loop lib (languages_bound self) [] predefined = Inl err"
    by (simp add: predefined_loop_append del: predefined_loop.simps)
  with h show "create_recognizer_registry lib from_dict self = Inl err"
    by (simp add: create_after_split[OF rec])
next
  fix self :: provider and pre post acc later
  assume "sublist ''enabled'' name \<and> (\<exists>l ls. py_iter (resolved_languages self) = Inr (l # ls))"
  then obtain l ls where sub: "sublist ''enabled'' name"
    and it: "py_iter (supported_languages (languages_bound self)) = Inr (l # ls)"
    by (auto simp: languages_bound_def)
  show "predefined_loop lib (languages_bound self) acc (PStr name # later) = Inl TypeError"
    by (rule bare_name_entry_raises[OF sub it])
next
  fix self :: provider and pre post
  assume rec: "map_of (configuration self) ''recognizers'' = Some (PList (pre @ PStr name # post))"
    and "sublist ''enabled'' name \<and> (\<exists>l ls. py_iter (resolved_languages self) = Inr (l # ls))"
  then obtain l ls where sub: "sublist ''enabled'' name"
    and it: "py_iter (supported_languages (languages_bound self)) = Inr (l # ls)"
    by (auto simp: languages_bound_def)
  show "\<exists>err. create_recognizer_registry lib from_dict self = Inl err"
  proof (cases "split_recognizers (PList (pre @ PStr name # post))")
    case (Inl err)
    with create_split_raises[OF rec Inl] show ?thesis by blast
  next
    case (Inr split)
    obtain predefined custom where sp: "split = (predefined, custom)" by (cases split)
    from split_predefined_part[of pre name post predefined custom] Inr sp obtain earlier later where
      pe: "predefined = earlier @ PStr name # later" by auto
    have "\<exists>err. predefined_loop lib (languages_bound self) [] predefined = Inl err"
      by (cases "predefined_loop lib (languages_bound self) [] earlier")
         (simp_all add: pe predefined_loop_append bare_name_entry_raises[OF sub it]
                   del: predefined_loop.simps)
    then show ?thesis using Inr sp by (auto simp: create_after_split[OF rec])
  qed
next
  fix self :: provider and pre post predefined custom earlier acc
  assume rec: "map_of (configuration self) ''recognizers'' = Some (PList (pre @ PStr name # post))"
    and "sublist ''enabled'' name \<and> (\<exists>l ls. py_iter (resolved_languages self) = Inr (l # ls))"
    and h: "split_recognizers (PList (pre @ PStr name # post)) = Inr (predefined, custom)
              \<and> filter_e predefined_cond pre = Inr earlier
              \<and> predefined_loop lib (languages_bound self) [] earlier = Inr acc"
  then obtain l ls where sub: "sublist ''enabled'' name"
    and it: "py_iter (supported_languages (languages_bound self)) = Inr (l # ls)"
    by (auto simp: languages_bound_def)
  from split_predefined_part[of pre name post predefined custom] h obtain later where
    "predefined = earlier @ PStr name # later" by auto
  with h have "predefined_loop lib (languages_bound self) [] predefined = Inl TypeError"
    by (simp add: predefined_loop_append bare_name_entry_raises[OF sub it]
             del: predefined_loop.simps)
  with h show "create_recognizer_registry lib from_dict self = Inl TypeError"
    by (simp add: create_after_split[OF rec])
qed

theorem enabled_check_on_bare_name_witness:
  "\<not> sublist ''enabled'' ''CreditCardRecognizer''
   \<and> is_recognizer_enabled (PStr ''CreditCardRecognizer'') = Inr (PBool True)
   \<and> sublist ''enabled'' ''enabled_recognizer''
   \<and> is_recognizer_enabled (PStr ''enabled_recognizer'') = Inl TypeError
   \<and> create_recognizer_registry example_library example_from_dict
        (example_provider [PStr ''en''] [example_zip, PStr ''enabled_recognizer'']) = Inl TypeError
   \<and> split_recognizers (PList ([] @ PStr ''enabled_recognizer'' # [PInt 5])) = Inl TypeError
   \<and> create_recognizer_registry example_library example_from_dict
        (example_provider [PStr ''en''] [PStr ''enabled_recognizer'', PInt 5]) = Inl TypeError
   \<and> create_recognizer_registry example_library example_from_dict
        (example_provider [] [PStr ''enabled_recognizer'', example_zip])
      = create_recognizer_registry example_library example_from_dict
          (with_recognizers (example_provider [] [PStr ''enabled_recognizer'', example_zip])
             ([] @ [example_zip]))
   \<and> create_recognizer_registry example_library example_from_dict
        (example_provider [] [PStr ''enabled_recognizer'', example_zip])
      = Inr (example_registry [] [])"
proof -
  let ?s1 = "example_provider [PStr ''en''] [example_zip, PStr ''enabled_recognizer'']"
  let ?s2 = "example_provider [PStr ''en''] [PStr ''enabled_recognizer'', PInt 5]"
  let ?s3 = "example_provider [] [PStr ''enabled_recognizer'', example_zip]"
  note at_name = enabled_check_on_bare_name[where name = "''enabled_recognizer''" and lib = example_library
                      and from_dict = example_from_dict]
  have n: "\<not> sublist ''enabled'' ''CreditCardRecognizer''" by (simp add: sublist_code)
  have y: "sublist ''enabled'' ''enabled_recognizer''" by (simp add: sublist_code)
  have a: "is_recognizer_enabled (PStr ''CreditCardRecognizer'') = Inr (PBool True)"
    using enabled_check_on_bare_name[where name = "''CreditCardRecognizer''"] n by blast
  have b: "is_recognizer_enabled (PStr ''enabled_recognizer'') = Inl TypeError"
    using at_name y by blast
  have rec1: "map_of (configuration ?s1) ''recognizers''
                = Some (PList ([example_zip] @ PStr ''enabled_recognizer'' # []))"
    by (simp add: example_provider_def)
  have l1: "\<exists>l ls. py_iter (resolved_languages ?s1) = Inr (l # ls)"
    by (simp add: example_provider_def resolved_languages_def)
  have sp1: "split_recognizers (PList ([example_zip] @ PStr ''enabled_recognizer'' # []))
               = Inr ([PStr ''enabled_recognizer''], [example_zip])"
    by (simp add: example_eval_instances)
  have f1: "filter_e predefined_cond [example_zip] = Inr []"
    by (simp add: example_eval_instances)
  have p1: "predefined_loop example_library (languages_bound ?s1) [] [] = Inr []" by simp
  have c: "create_recognizer_registry example_library example_from_dict ?s1 = Inl TypeError"
    using at_name rec1 y l1 sp1 f1 p1 by blast
  have rec2: "map_of (configuration ?s2) ''recognizers''
                = Some (PList ([] @ PStr ''enabled_recognizer'' # [PInt 5]))"
    by (simp add: example_provider_def)
  have sp2: "split_recognizers (PList ([] @ PStr ''enabled_recognizer'' # [PInt 5])) = Inl TypeError"
    by (simp add: example_eval_instances)
  have d: "create_recognizer_registry example_library example_from_dict ?s2 = Inl TypeError"
    using at_name rec2 sp2 by blast
  have rec3: "map_of (configuration ?s3) ''recognizers''
                = Some (PList ([] @ PStr ''enabled_recognizer'' # [example_zip]))"
    by (simp add: example_provider_def)
  have l3: "py_iter (resolved_languages ?s3) = Inr []"
    by (simp add: example_provider_def resolved_languages_def)
  have e: "create_recognizer_registry example_library example_from_dict ?s3
      = create_recognizer_registry example_library example_from_dict
          (with_recognizers ?s3 ([] @ [example_zip]))"
    using at_name rec3 l3 by blast
  have g: "create_recognizer_registry example_library example_from_dict ?s3
             = Inr (example_registry [] [])"
    by (simp add: example_eval_instances)
  from n y a b c sp2 d e g show ?thesis by simp
qed

text \<open>
  C10, as stated, fails when the registry-wide language list is empty: the check is never
  run, and the registry is returned with no instance for the entry.
\<close>

theorem bare_name_check_not_reached:
  "sublist ''enabled'' ''enabled_recognizer''
   \<and> create_recognizer_registry example_library example_from_dict
     \<lparr>configuration =
        [(''supported_languages'', PList []),
         (''recognizers'', PList [PStr ''enabled_recognizer''])],
      supported_languages = PNone\<rparr>
   = Inr \<lparr>registry_supported_languages = PList [],
          registry_recognizers = [],
          registry_global_regex_flags = PInt 26\<rparr>"
  by (simp add: registry_eval)

end
